theory Spec2Isabelle
  imports Main
begin

section \<open>Values shared by the services\<close>

text \<open>
  Timestamps are JavaScript \<open>Date\<close> values, read as milliseconds since the epoch.
  Numbers that the service treats as minute counts are modelled as integers.
  Identifiers (UUIDs) and RIDs are strings.  A thrown \<open>Error\<close> is a value carrying the
  message of the exception.
\<close>

type_synonym time = int

datatype error = Error string

fun message :: "error \<Rightarrow> string" where
  "message (Error m) = m"

datatype json =
    JNull
  | JBool bool
  | JNum int
  | JStr string
  | JObj "(string \<times> json) list"

text \<open>JavaScript truthiness of a string: only the empty string is falsy.\<close>

definition truthy_str :: "string \<Rightarrow> bool" where
  "truthy_str s = (s \<noteq> [])"

fun truthy_opt :: "string option \<Rightarrow> bool" where
  "truthy_opt None = False"
| "truthy_opt (Some s) = truthy_str s"

section \<open>Delay detector (services/delay-detector)\<close>

record JourneyData =
  jd_id :: "string option"
  jd_rid :: "string option"

record DelayData =
  d_rid :: string
  total_delay_minutes :: int
  cancelled :: bool
  delay_reasons :: "json option"

record DelayResult =
  journeyId :: string
  r_rid :: string
  isDelayed :: bool
  isCancelled :: bool
  delayMinutes :: int
  exceedsThreshold :: bool
  claimEligible :: bool
  delayReasons :: "json option"
  detectedAt :: time
  dataNotFound :: "bool option"

record DelayDetector =
  thresholdMinutes :: int

text \<open>The constructor: \<open>config.thresholdMinutes ?? 15\<close>, rejected when not positive.\<close>

definition DelayDetector_new :: "int option \<Rightarrow> error + DelayDetector" where
  "DelayDetector_new cfg =
     (let threshold = (case cfg of None \<Rightarrow> 15 | Some t \<Rightarrow> t)
      in if threshold \<le> 0 then Inl (Error ''Threshold must be a positive number'')
         else Inr \<lparr>thresholdMinutes = threshold\<rparr>)"

definition meetsThreshold :: "DelayDetector \<Rightarrow> int \<Rightarrow> bool" where
  "meetsThreshold det m = (m \<ge> thresholdMinutes det)"

text \<open>\<open>x ?? ''\<close> on an optional string.\<close>

fun or_empty :: "string option \<Rightarrow> string" where
  "or_empty None = []"
| "or_empty (Some s) = s"

definition detectDelay :: "DelayDetector \<Rightarrow> time \<Rightarrow> JourneyData \<Rightarrow> DelayData \<Rightarrow> DelayResult" where
  "detectDelay det now journey delayData =
     (let dm = total_delay_minutes delayData;
          isC = cancelled delayData;
          isD = (dm > 0 \<or> isC);
          exc = meetsThreshold det dm;
          elig = (exc \<or> isC)
      in \<lparr>journeyId = or_empty (jd_id journey),
          r_rid = d_rid delayData,
          isDelayed = isD,
          isCancelled = isC,
          delayMinutes = dm,
          exceedsThreshold = exc,
          claimEligible = elig,
          delayReasons = delay_reasons delayData,
          detectedAt = now,
          dataNotFound = None\<rparr>)"

text \<open>\<open>findDelayByRid\<close>: a falsy (empty) RID finds nothing; otherwise the first record
  whose RID is the same string.\<close>

definition findDelayByRid :: "string \<Rightarrow> DelayData list \<Rightarrow> DelayData option" where
  "findDelayByRid rid delayDataArray =
     (if \<not> truthy_str rid then None
      else find (\<lambda>d. d_rid d = rid) delayDataArray)"

definition notFoundResult :: "time \<Rightarrow> JourneyData \<Rightarrow> DelayResult" where
  "notFoundResult now journey =
     \<lparr>journeyId = or_empty (jd_id journey),
      r_rid = or_empty (jd_rid journey),
      isDelayed = False,
      isCancelled = False,
      delayMinutes = 0,
      exceedsThreshold = False,
      claimEligible = False,
      delayReasons = None,
      detectedAt = now,
      dataNotFound = Some True\<rparr>"

text \<open>The loop of \<open>detectDelaysBatch\<close>, pushing one result per journey onto \<open>results\<close>.\<close>

fun detectLoop ::
  "DelayDetector \<Rightarrow> time \<Rightarrow> DelayData list \<Rightarrow> JourneyData list \<Rightarrow> DelayResult list \<Rightarrow> DelayResult list"
where
  "detectLoop det now ds [] results = results"
| "detectLoop det now ds (journey # rest) results =
     (case findDelayByRid (or_empty (jd_rid journey)) ds of
        Some delayData \<Rightarrow> detectLoop det now ds rest (results @ [detectDelay det now journey delayData])
      | None \<Rightarrow> detectLoop det now ds rest (results @ [notFoundResult now journey]))"

definition detectDelaysBatch ::
  "DelayDetector \<Rightarrow> time \<Rightarrow> JourneyData list \<Rightarrow> DelayData list \<Rightarrow> DelayResult list"
where
  "detectDelaysBatch det now journeys delayDataArray =
     (if length journeys = 0 then [] else detectLoop det now delayDataArray journeys [])"

section \<open>Claim trigger (services/claim-trigger)\<close>

datatype ClaimTriggerReason =
    BELOW_THRESHOLD
  | NOT_ELIGIBLE
  | SERVICE_ERROR
  | DUPLICATE_CLAIM
  | NETWORK_ERROR
  | ALREADY_TRIGGERED

fun reason_name :: "ClaimTriggerReason \<Rightarrow> string" where
  "reason_name BELOW_THRESHOLD = ''BELOW_THRESHOLD''"
| "reason_name NOT_ELIGIBLE = ''NOT_ELIGIBLE''"
| "reason_name SERVICE_ERROR = ''SERVICE_ERROR''"
| "reason_name DUPLICATE_CLAIM = ''DUPLICATE_CLAIM''"
| "reason_name NETWORK_ERROR = ''NETWORK_ERROR''"
| "reason_name ALREADY_TRIGGERED = ''ALREADY_TRIGGERED''"

text \<open>The oracle's JSON answer is not validated, so every key may be absent.\<close>

record ClaimTriggerApiResponse =
  api_success :: "bool option"
  api_claim_reference_id :: "string option"
  api_message :: "string option"
  api_eligible :: "bool option"
  api_estimated_compensation :: "int option"
  api_error :: "string option"

record ClaimTriggerResult =
  success :: bool
  claimReferenceId :: "string option"
  reason :: "ClaimTriggerReason option"
  estimatedCompensation :: "int option"
  existingClaimReferenceId :: "string option"
  ctr_error :: "string option"
  retryable :: "bool option"
  triggeredAt :: "time option"
  delayAlertId :: "string option"

record DelayAlertInput =
  dai_id :: string
  dai_monitored_journey_id :: string
  dai_delay_minutes :: int
  dai_user_id :: string
  dai_claim_triggered :: "bool option"
  dai_claim_reference_id :: "string option"

record TriggerClaimParams =
  p_userId :: string
  p_journeyId :: string
  p_delayMinutes :: int

text \<open>What a call of the eligibility client does: it returns a response, or it throws
  (an \<open>Error\<close> with a message, or some other value).\<close>

datatype thrown = ThrownError string | ThrownOther

datatype oracle_outcome = Returns ClaimTriggerApiResponse | Throws thrown

record ClaimTrigger =
  eligibilityClient :: "TriggerClaimParams \<Rightarrow> oracle_outcome"
  ct_thresholdMinutes :: int

definition ClaimTrigger_new ::
  "(TriggerClaimParams \<Rightarrow> oracle_outcome) \<Rightarrow> int option \<Rightarrow> ClaimTrigger" where
  "ClaimTrigger_new client cfg =
     \<lparr>eligibilityClient = client,
      ct_thresholdMinutes = (case cfg of None \<Rightarrow> 15 | Some t \<Rightarrow> t)\<rparr>"

text \<open>\<open>String.prototype.toLowerCase\<close> on the ASCII letters and \<open>String.prototype.includes\<close>.\<close>

definition toLowerChar :: "char \<Rightarrow> char" where
  "toLowerChar c =
     (case map_of (zip ''ABCDEFGHIJKLMNOPQRSTUVWXYZ'' ''abcdefghijklmnopqrstuvwxyz'') c of
        Some l \<Rightarrow> l | None \<Rightarrow> c)"

definition toLowerCase :: "string \<Rightarrow> string" where
  "toLowerCase s = map toLowerChar s"

fun startsWith :: "string \<Rightarrow> string \<Rightarrow> bool" where
  "startsWith s [] = True"
| "startsWith [] (p # ps) = False"
| "startsWith (c # cs) (p # ps) = (c = p \<and> startsWith cs ps)"

fun str_includes :: "string \<Rightarrow> string \<Rightarrow> bool" where
  "str_includes [] pat = (pat = [])"
| "str_includes (c # cs) pat = (startsWith (c # cs) pat \<or> str_includes cs pat)"

definition emptyResult :: ClaimTriggerResult where
  "emptyResult =
     \<lparr>success = False, claimReferenceId = None, reason = None, estimatedCompensation = None,
      existingClaimReferenceId = None, ctr_error = None, retryable = None,
      triggeredAt = None, delayAlertId = None\<rparr>"

definition isTrue :: "bool option \<Rightarrow> bool" where
  "isTrue b = (b = Some True)"

text \<open>The request \<open>triggerClaim\<close> sends to the oracle for an alert.\<close>

definition oracle_params :: "DelayAlertInput \<Rightarrow> TriggerClaimParams" where
  "oracle_params delayAlert =
     \<lparr>p_userId = dai_user_id delayAlert,
      p_journeyId = dai_monitored_journey_id delayAlert,
      p_delayMinutes = dai_delay_minutes delayAlert\<rparr>"

text \<open>\<open>triggerClaim\<close> returns its result together with the calls it made to the oracle.\<close>

definition triggerClaim ::
  "ClaimTrigger \<Rightarrow> time \<Rightarrow> DelayAlertInput \<Rightarrow> ClaimTriggerResult \<times> TriggerClaimParams list"
where
  "triggerClaim ct now delayAlert =
     (if isTrue (dai_claim_triggered delayAlert) then
        (emptyResult\<lparr>success := False, reason := Some ALREADY_TRIGGERED,
            existingClaimReferenceId := dai_claim_reference_id delayAlert,
            triggeredAt := Some now, delayAlertId := Some (dai_id delayAlert)\<rparr>, [])
      else if dai_delay_minutes delayAlert < ct_thresholdMinutes ct then
        (emptyResult\<lparr>success := False, reason := Some BELOW_THRESHOLD,
            triggeredAt := Some now, delayAlertId := Some (dai_id delayAlert)\<rparr>, [])
      else
        (let params = oracle_params delayAlert
         in ((case eligibilityClient ct params of
               Returns response \<Rightarrow>
                 (if \<not> isTrue (api_success response) \<and> truthy_opt (api_claim_reference_id response) then
                    emptyResult\<lparr>success := False, reason := Some DUPLICATE_CLAIM,
                      existingClaimReferenceId := api_claim_reference_id response,
                      triggeredAt := Some now, delayAlertId := Some (dai_id delayAlert)\<rparr>
                  else if api_eligible response = Some False then
                    emptyResult\<lparr>success := False, reason := Some NOT_ELIGIBLE,
                      claimReferenceId := None,
                      triggeredAt := Some now, delayAlertId := Some (dai_id delayAlert)\<rparr>
                  else if \<not> isTrue (api_success response) then
                    emptyResult\<lparr>success := False, reason := Some SERVICE_ERROR,
                      ctr_error := api_message response, retryable := Some False,
                      triggeredAt := Some now, delayAlertId := Some (dai_id delayAlert)\<rparr>
                  else
                    emptyResult\<lparr>success := True,
                      claimReferenceId := api_claim_reference_id response,
                      estimatedCompensation := api_estimated_compensation response,
                      triggeredAt := Some now, delayAlertId := Some (dai_id delayAlert)\<rparr>)
             | Throws err \<Rightarrow>
                 (let errorMessage = (case err of ThrownError m \<Rightarrow> m | ThrownOther \<Rightarrow> ''Unknown error'');
                      isNetworkError = (str_includes (toLowerCase errorMessage) ''network'' \<or>
                                        str_includes errorMessage ''ECONNREFUSED'' \<or>
                                        str_includes (toLowerCase errorMessage) ''timeout'')
                  in emptyResult\<lparr>success := False, reason := Some NETWORK_ERROR,
                       ctr_error := Some errorMessage, retryable := Some isNetworkError,
                       triggeredAt := Some now, delayAlertId := Some (dai_id delayAlert)\<rparr>)),
             [params])))"

section \<open>Eligibility engine client (clients/eligibility-engine)\<close>

text \<open>
  What \<open>fetch\<close> does for the request of \<open>EligibilityEngineClient.triggerClaim\<close>: it answers
  with a 2xx status and a JSON body, or with another status (given with its status text and
  its body), or it is aborted by the client's timeout, or it throws something else (as it
  does when the connection fails).  The client returns the body of a 2xx answer, returns an
  error-shaped response for another status, turns the abort into its own timeout error, and
  rethrows everything else as it is.
\<close>

datatype fetch_outcome =
    FetchOk ClaimTriggerApiResponse
  | FetchNotOk string string string
  | FetchAborted
  | FetchThrows thrown

fun EligibilityEngineClient_triggerClaim :: "fetch_outcome \<Rightarrow> oracle_outcome" where
  "EligibilityEngineClient_triggerClaim (FetchOk response) = Returns response"
| "EligibilityEngineClient_triggerClaim (FetchNotOk status statusText errorBody) =
     Returns \<lparr>api_success = Some False, api_claim_reference_id = None,
              api_message = Some errorBody, api_eligible = None,
              api_estimated_compensation = None,
              api_error = Some (''API error: '' @ status @ '' '' @ statusText)\<rparr>"
| "EligibilityEngineClient_triggerClaim FetchAborted =
     Throws (ThrownError ''Eligibility API request timeout'')"
| "EligibilityEngineClient_triggerClaim (FetchThrows err) = Throws err"

section \<open>The database (schema \<open>delay_tracker\<close>)\<close>

datatype MonitoringStatus = Pending_rid | Active | Delayed | Completed | Cancelled

fun status_name :: "MonitoringStatus \<Rightarrow> string" where
  "status_name Pending_rid = ''pending_rid''"
| "status_name Active = ''active''"
| "status_name Delayed = ''delayed''"
| "status_name Completed = ''completed''"
| "status_name Cancelled = ''cancelled''"

text \<open>Rows of \<open>monitored_journeys\<close>, \<open>delay_alerts\<close> and \<open>outbox\<close>.  The audit columns
  \<open>created_at\<close> and \<open>updated_at\<close>, which no service reads, are left out.\<close>

record MonitoredJourney =
  j_id :: string
  user_id :: string
  journey_id :: string
  rid :: "string option"
  service_date :: string
  origin_crs :: string
  destination_crs :: string
  scheduled_departure :: time
  scheduled_arrival :: time
  monitoring_status :: MonitoringStatus
  last_checked_at :: "time option"
  next_check_at :: "time option"

record DelayAlert =
  a_id :: string
  monitored_journey_id :: string
  delay_minutes :: int
  delay_detected_at :: "time option"
  alert_delay_reasons :: "json option"
  is_cancellation :: bool
  threshold_exceeded :: bool
  claim_triggered :: bool
  claim_triggered_at :: "time option"
  claim_reference_id :: "string option"
  claim_trigger_response :: "json option"
  notification_sent :: bool
  notification_sent_at :: "time option"

text \<open>A payload value \<open>None\<close> is JavaScript's \<open>undefined\<close>.\<close>

record OutboxEvent =
  o_id :: "string option"
  event_type :: string
  aggregate_type :: string
  aggregate_id :: string
  payload :: "(string \<times> json option) list"
  o_status :: "string option"
  retry_count :: "nat option"

text \<open>A \<open>Partial<MonitoredJourney>\<close> and a \<open>Partial<DelayAlert>\<close>, restricted to the fields
  the repositories allow: the outer \<open>option\<close> says whether the key is in the object.\<close>

record JourneyUpdates =
  ju_rid :: "string option option"
  ju_monitoring_status :: "MonitoringStatus option"
  ju_last_checked_at :: "time option option"
  ju_next_check_at :: "time option option"

record AlertUpdates =
  au_delay_minutes :: "int option"
  au_delay_reasons :: "json option option"
  au_is_cancellation :: "bool option"
  au_threshold_exceeded :: "bool option"
  au_claim_triggered :: "bool option"
  au_claim_triggered_at :: "time option option"
  au_claim_reference_id :: "string option option"
  au_claim_trigger_response :: "json option option"
  au_notification_sent :: "bool option"
  au_notification_sent_at :: "time option option"

definition no_journey_updates :: JourneyUpdates where
  "no_journey_updates =
     \<lparr>ju_rid = None, ju_monitoring_status = None, ju_last_checked_at = None, ju_next_check_at = None\<rparr>"

definition no_alert_updates :: AlertUpdates where
  "no_alert_updates =
     \<lparr>au_delay_minutes = None, au_delay_reasons = None, au_is_cancellation = None,
      au_threshold_exceeded = None, au_claim_triggered = None, au_claim_triggered_at = None,
      au_claim_reference_id = None, au_claim_trigger_response = None,
      au_notification_sent = None, au_notification_sent_at = None\<rparr>"

text \<open>The statements the journey repository sends to the pool, in the order sent.\<close>

datatype journey_stmt =
    InsertJourney string
  | UpdateJourney string JourneyUpdates
  | UpdateStatus string MonitoringStatus "string option"
  | UpdateLastChecked "string list" time "time option"

text \<open>A write to \<open>delay_alerts\<close> or \<open>outbox\<close>.  Sent on the pool it takes effect at once;
  sent on a client with an open transaction it is held until \<open>COMMIT\<close>.\<close>

datatype db_write =
    InsertAlert DelayAlert
  | SetAlert string AlertUpdates
  | InsertOutbox OutboxEvent

datatype conn = Pool | Client

text \<open>
  The database: the committed tables, the writes of the client's open transaction
  (\<open>None\<close> when no transaction is open), whether a failed statement has aborted that
  transaction, and the source of \<open>gen_random_uuid()\<close>.  \<open>outbox_insert_fails\<close> says for
  which events the insert into \<open>outbox\<close> raises a database error.
\<close>

record db =
  journeys :: "MonitoredJourney list"
  journey_stmts :: "journey_stmt list"
  alerts :: "DelayAlert list"
  outbox :: "OutboxEvent list"
  pending :: "db_write list option"
  tx_aborted :: bool
  uuid_seq :: nat
  gen_random_uuid :: "nat \<Rightarrow> string"
  outbox_insert_fails :: "OutboxEvent \<Rightarrow> bool"

definition set_opt :: "'a option \<Rightarrow> 'a \<Rightarrow> 'a" where
  "set_opt u old = (case u of None \<Rightarrow> old | Some v \<Rightarrow> v)"

definition apply_alert_updates :: "AlertUpdates \<Rightarrow> DelayAlert \<Rightarrow> DelayAlert" where
  "apply_alert_updates u a =
     a\<lparr>delay_minutes := set_opt (au_delay_minutes u) (delay_minutes a),
       alert_delay_reasons := set_opt (au_delay_reasons u) (alert_delay_reasons a),
       is_cancellation := set_opt (au_is_cancellation u) (is_cancellation a),
       threshold_exceeded := set_opt (au_threshold_exceeded u) (threshold_exceeded a),
       claim_triggered := set_opt (au_claim_triggered u) (claim_triggered a),
       claim_triggered_at := set_opt (au_claim_triggered_at u) (claim_triggered_at a),
       claim_reference_id := set_opt (au_claim_reference_id u) (claim_reference_id a),
       claim_trigger_response := set_opt (au_claim_trigger_response u) (claim_trigger_response a),
       notification_sent := set_opt (au_notification_sent u) (notification_sent a),
       notification_sent_at := set_opt (au_notification_sent_at u) (notification_sent_at a)\<rparr>"

fun apply_write :: "db_write \<Rightarrow> db \<Rightarrow> db" where
  "apply_write (InsertAlert a) d = d\<lparr>alerts := alerts d @ [a]\<rparr>"
| "apply_write (SetAlert i u) d =
     d\<lparr>alerts := map (\<lambda>a. if a_id a = i then apply_alert_updates u a else a) (alerts d)\<rparr>"
| "apply_write (InsertOutbox e) d = d\<lparr>outbox := outbox d @ [e]\<rparr>"

definition in_tx :: "conn \<Rightarrow> db \<Rightarrow> bool" where
  "in_tx c d = (c = Client \<and> pending d \<noteq> None)"

text \<open>The tables as a statement on connection \<open>c\<close> sees them.\<close>

definition visible :: "conn \<Rightarrow> db \<Rightarrow> db" where
  "visible c d =
     (case pending d of
        Some ws \<Rightarrow> (if c = Client then fold apply_write ws d else d)
      | None \<Rightarrow> d)"

definition exec_write :: "conn \<Rightarrow> db_write \<Rightarrow> db \<Rightarrow> db" where
  "exec_write c w d =
     (case pending d of
        Some ws \<Rightarrow> (if c = Client then d\<lparr>pending := Some (ws @ [w])\<rparr> else apply_write w d)
      | None \<Rightarrow> apply_write w d)"

text \<open>A statement that raises: inside a transaction it aborts the transaction.\<close>

definition stmt_fails :: "conn \<Rightarrow> error \<Rightarrow> db \<Rightarrow> (error + 'a) \<times> db" where
  "stmt_fails c e d = (Inl e, if in_tx c d then d\<lparr>tx_aborted := True\<rparr> else d)"

definition aborted_error :: error where
  "aborted_error =
     Error ''current transaction is aborted, commands ignored until end of transaction block''"

definition blocked :: "conn \<Rightarrow> db \<Rightarrow> bool" where
  "blocked c d = (in_tx c d \<and> tx_aborted d)"

definition sql_BEGIN :: "db \<Rightarrow> db" where
  "sql_BEGIN d = (case pending d of None \<Rightarrow> d\<lparr>pending := Some [], tx_aborted := False\<rparr> | Some ws \<Rightarrow> d)"

definition sql_COMMIT :: "db \<Rightarrow> db" where
  "sql_COMMIT d =
     (case pending d of
        None \<Rightarrow> d
      | Some ws \<Rightarrow>
          (if tx_aborted d then d\<lparr>pending := None, tx_aborted := False\<rparr>
           else (fold apply_write ws d)\<lparr>pending := None\<rparr>))"

definition sql_ROLLBACK :: "db \<Rightarrow> db" where
  "sql_ROLLBACK d = d\<lparr>pending := None, tx_aborted := False\<rparr>"

text \<open>
  Two notions for the proofs about transactions: a transaction is open on the client; and a
  database \<open>d'\<close> has the committed \<open>delay_alerts\<close> and \<open>outbox\<close> of \<open>d\<close> and an open transaction,
  so that whatever was written between the two is still held back.
\<close>

definition tx_open :: "db \<Rightarrow> bool" where
  "tx_open d = (pending d \<noteq> None)"

definition deferred :: "db \<Rightarrow> db \<Rightarrow> bool" where
  "deferred d d' = (alerts d' = alerts d \<and> outbox d' = outbox d \<and> tx_open d')"

section \<open>Journey repository (repositories/journey-repository)\<close>

text \<open>Every statement of this repository goes to the pool; none takes a client.\<close>

definition JourneyRepository_findById :: "string \<Rightarrow> db \<Rightarrow> MonitoredJourney option" where
  "JourneyRepository_findById i d = find (\<lambda>j. j_id j = i) (journeys d)"

definition JourneyRepository_findByJourneyId :: "string \<Rightarrow> db \<Rightarrow> MonitoredJourney option" where
  "JourneyRepository_findByJourneyId jid d = find (\<lambda>j. journey_id j = jid) (journeys d)"

text \<open>\<open>create\<close>: the identifier comes from the database; \<open>journey_id\<close> is unique.\<close>

definition JourneyRepository_create :: "MonitoredJourney \<Rightarrow> db \<Rightarrow> (error + MonitoredJourney) \<times> db" where
  "JourneyRepository_create journey d =
     (let d1 = d\<lparr>journey_stmts := journey_stmts d @ [InsertJourney (journey_id journey)]\<rparr>
      in if \<exists>j \<in> set (journeys d). journey_id j = journey_id journey then
           (Inl (Error ''duplicate key value violates unique constraint uk_monitored_journeys_journey_id''), d1)
         else
           (let row = journey\<lparr>j_id := gen_random_uuid d (uuid_seq d),
                              rid := (if truthy_opt (rid journey) then rid journey else None)\<rparr>
            in (Inr row, d1\<lparr>journeys := journeys d @ [row], uuid_seq := Suc (uuid_seq d)\<rparr>)))"

definition due_key :: "MonitoredJourney \<Rightarrow> time" where
  "due_key j = (case next_check_at j of Some t \<Rightarrow> t | None \<Rightarrow> 0)"

definition is_due :: "time \<Rightarrow> MonitoredJourney \<Rightarrow> bool" where
  "is_due checkTime j =
     ((case next_check_at j of Some t \<Rightarrow> t \<le> checkTime | None \<Rightarrow> False) \<and>
      (monitoring_status j = Active \<or> monitoring_status j = Pending_rid))"

definition JourneyRepository_findJourneysDueForCheck :: "nat \<Rightarrow> time \<Rightarrow> db \<Rightarrow> MonitoredJourney list" where
  "JourneyRepository_findJourneysDueForCheck limit checkTime d =
     take limit (sort_key due_key (filter (is_due checkTime) (journeys d)))"

definition apply_journey_updates :: "JourneyUpdates \<Rightarrow> MonitoredJourney \<Rightarrow> MonitoredJourney" where
  "apply_journey_updates u j =
     j\<lparr>rid := set_opt (ju_rid u) (rid j),
       monitoring_status := set_opt (ju_monitoring_status u) (monitoring_status j),
       last_checked_at := set_opt (ju_last_checked_at u) (last_checked_at j),
       next_check_at := set_opt (ju_next_check_at u) (next_check_at j)\<rparr>"

definition JourneyRepository_update :: "string \<Rightarrow> JourneyUpdates \<Rightarrow> db \<Rightarrow> MonitoredJourney option \<times> db" where
  "JourneyRepository_update i updates d =
     (if updates = no_journey_updates then (JourneyRepository_findById i d, d)
      else
        (let d1 = d\<lparr>journeys := map (\<lambda>j. if j_id j = i then apply_journey_updates updates j else j) (journeys d),
                     journey_stmts := journey_stmts d @ [UpdateJourney i updates]\<rparr>
         in (JourneyRepository_findById i d1, d1)))"

definition JourneyRepository_updateStatus :: "string \<Rightarrow> MonitoringStatus \<Rightarrow> string option \<Rightarrow> db \<Rightarrow> db" where
  "JourneyRepository_updateStatus i status additionalRid d =
     (if truthy_opt additionalRid then
        d\<lparr>journeys := map (\<lambda>j. if j_id j = i then j\<lparr>monitoring_status := status, rid := additionalRid\<rparr> else j) (journeys d),
          journey_stmts := journey_stmts d @ [UpdateStatus i status additionalRid]\<rparr>
      else
        d\<lparr>journeys := map (\<lambda>j. if j_id j = i then j\<lparr>monitoring_status := status\<rparr> else j) (journeys d),
          journey_stmts := journey_stmts d @ [UpdateStatus i status None]\<rparr>)"

definition JourneyRepository_updateLastChecked :: "string list \<Rightarrow> time \<Rightarrow> time option \<Rightarrow> db \<Rightarrow> db" where
  "JourneyRepository_updateLastChecked ids checkedAt nextCheckAt d =
     (if length ids = 0 then d
      else d\<lparr>journeys := map (\<lambda>j. if j_id j \<in> set ids
                                      then j\<lparr>last_checked_at := Some checkedAt, next_check_at := nextCheckAt\<rparr>
                                      else j) (journeys d),
             journey_stmts := journey_stmts d @ [UpdateLastChecked ids checkedAt nextCheckAt]\<rparr>)"

section \<open>Journey monitor (services/journey-monitor)\<close>

record RegisterJourneyData =
  reg_user_id :: string
  reg_journey_id :: string
  reg_service_date :: string
  reg_origin_crs :: string
  reg_destination_crs :: string
  reg_scheduled_departure :: time
  reg_scheduled_arrival :: time

fun VALID_TRANSITIONS :: "MonitoringStatus \<Rightarrow> MonitoringStatus list" where
  "VALID_TRANSITIONS Pending_rid = [Active, Cancelled]"
| "VALID_TRANSITIONS Active = [Delayed, Completed, Cancelled]"
| "VALID_TRANSITIONS Delayed = [Completed, Cancelled]"
| "VALID_TRANSITIONS Completed = []"
| "VALID_TRANSITIONS Cancelled = []"

definition checkIntervalMinutes :: int where
  "checkIntervalMinutes = 5"

definition t48Hours :: int where
  "t48Hours = 48 * 60 * 60 * 1000"

definition JourneyMonitor_getJourneysDueForCheck :: "time \<Rightarrow> db \<Rightarrow> MonitoredJourney list" where
  "JourneyMonitor_getJourneysDueForCheck now d = JourneyRepository_findJourneysDueForCheck 100 now d"

definition JourneyMonitor_updateLastChecked :: "time \<Rightarrow> string list \<Rightarrow> db \<Rightarrow> db" where
  "JourneyMonitor_updateLastChecked now journeyIds d =
     (if length journeyIds = 0 then d
      else
        (let nextCheck = now + checkIntervalMinutes * 60 * 1000;
             d1 = JourneyRepository_updateLastChecked journeyIds now None d
         in JourneyRepository_updateLastChecked journeyIds now (Some nextCheck) d1))"

definition JourneyMonitor_registerJourney ::
  "time \<Rightarrow> RegisterJourneyData \<Rightarrow> db \<Rightarrow> (error + MonitoredJourney) \<times> db" where
  "JourneyMonitor_registerJourney now data d =
     (case JourneyRepository_findByJourneyId (reg_journey_id data) d of
        Some existing \<Rightarrow> (Inl (Error ''Journey already registered for monitoring''), d)
      | None \<Rightarrow>
          (let departureTime = reg_scheduled_departure data;
               timeUntilDeparture = departureTime - now;
               nextCheckAt = (if timeUntilDeparture > t48Hours then departureTime - t48Hours
                              else now + checkIntervalMinutes * 60 * 1000)
           in JourneyRepository_create
                \<lparr>j_id = [],
                 user_id = reg_user_id data,
                 journey_id = reg_journey_id data,
                 rid = None,
                 service_date = reg_service_date data,
                 origin_crs = reg_origin_crs data,
                 destination_crs = reg_destination_crs data,
                 scheduled_departure = reg_scheduled_departure data,
                 scheduled_arrival = reg_scheduled_arrival data,
                 monitoring_status = Pending_rid,
                 last_checked_at = None,
                 next_check_at = Some nextCheckAt\<rparr> d))"

definition invalid_transition :: "MonitoringStatus \<Rightarrow> MonitoringStatus \<Rightarrow> error" where
  "invalid_transition currentStatus newStatus =
     Error (''Invalid status transition from '' @ [CHR 0x27] @ status_name currentStatus @ [CHR 0x27] @
            '' to '' @ [CHR 0x27] @ status_name newStatus @ [CHR 0x27])"

definition JourneyMonitor_updateStatus ::
  "string \<Rightarrow> MonitoringStatus \<Rightarrow> string option \<Rightarrow> db \<Rightarrow> (error + unit) \<times> db" where
  "JourneyMonitor_updateStatus jId newStatus additionalRid d =
     (case JourneyRepository_findById jId d of
        Some journey \<Rightarrow>
          (if newStatus \<notin> set (VALID_TRANSITIONS (monitoring_status journey)) then
             (Inl (invalid_transition (monitoring_status journey) newStatus), d)
           else (Inr (), JourneyRepository_updateStatus jId newStatus additionalRid d))
      | None \<Rightarrow> (Inr (), JourneyRepository_updateStatus jId newStatus additionalRid d))"

definition JourneyMonitor_resolveRid :: "time \<Rightarrow> string \<Rightarrow> string \<Rightarrow> db \<Rightarrow> (error + unit) \<times> db" where
  "JourneyMonitor_resolveRid now jId r d =
     (case JourneyRepository_findById jId d of
        None \<Rightarrow> (Inl (Error ''Journey not found''), d)
      | Some journey \<Rightarrow>
          (let d1 = snd (JourneyRepository_update jId
                           (no_journey_updates\<lparr>ju_rid := Some (Some r), ju_monitoring_status := Some Active\<rparr>) d);
               d2 = snd (JourneyRepository_update jId
                           (no_journey_updates\<lparr>ju_next_check_at := Some (Some now)\<rparr>) d1)
           in (Inr (), d2)))"

definition JourneyMonitor_cancelMonitoring :: "string \<Rightarrow> db \<Rightarrow> (error + unit) \<times> db" where
  "JourneyMonitor_cancelMonitoring jId d =
     (case JourneyRepository_findById jId d of
        None \<Rightarrow> (Inl (Error ''Journey not found''), d)
      | Some journey \<Rightarrow>
          (let d1 = JourneyRepository_updateStatus jId Cancelled None d;
               d2 = snd (JourneyRepository_update jId
                           (no_journey_updates\<lparr>ju_next_check_at := Some None\<rparr>) d1)
           in (Inr (), d2)))"

definition JourneyMonitor_completeJourney :: "string \<Rightarrow> db \<Rightarrow> (error + unit) \<times> db" where
  "JourneyMonitor_completeJourney jId d =
     (case JourneyRepository_findById jId d of
        None \<Rightarrow> (Inl (Error ''Journey not found''), d)
      | Some journey \<Rightarrow>
          (let d1 = JourneyRepository_updateStatus jId Completed None d;
               d2 = snd (JourneyRepository_update jId
                           (no_journey_updates\<lparr>ju_next_check_at := Some None\<rparr>) d1)
           in (Inr (), d2)))"

section \<open>Delay alert repository (repositories/delay-alert-repository)\<close>

text \<open>JavaScript truthiness of a JSON value; \<open>None\<close> is \<open>null\<close> or \<open>undefined\<close>.\<close>

fun truthy_json :: "json \<Rightarrow> bool" where
  "truthy_json JNull = False"
| "truthy_json (JBool b) = b"
| "truthy_json (JNum n) = (n \<noteq> 0)"
| "truthy_json (JStr s) = (s \<noteq> [])"
| "truthy_json (JObj kvs) = True"

fun truthy_jopt :: "json option \<Rightarrow> bool" where
  "truthy_jopt None = False"
| "truthy_jopt (Some v) = truthy_json v"

text \<open>
  What the columns accept.  A JSONB column rejects a JSON text with the escape \<open>\\u0000\<close>,
  which \<open>JSON.stringify\<close> writes for the character U+0000 in a string or a key, and returns
  every other value as it was serialised.  An \<open>integer\<close> column holds 32 bits.
\<close>

fun has_nul :: "json \<Rightarrow> bool" where
  "has_nul JNull = False"
| "has_nul (JBool b) = False"
| "has_nul (JNum n) = False"
| "has_nul (JStr s) = (CHR 0x00 \<in> set s)"
| "has_nul (JObj kvs) = list_ex (\<lambda>kv. CHR 0x00 \<in> set (fst kv) \<or> has_nul (snd kv)) kvs"

fun jsonb_rejects :: "json option \<Rightarrow> bool" where
  "jsonb_rejects None = False"
| "jsonb_rejects (Some v) = has_nul v"

definition int4_rejects :: "int \<Rightarrow> bool" where
  "int4_rejects m = (m < - 2147483648 \<or> 2147483647 < m)"

text \<open>\<open>typeof v === 'string' ? { message: v } : v\<close>, then \<open>JSON.stringify\<close> into the JSONB
  column.\<close>

fun wrap_response :: "json \<Rightarrow> json" where
  "wrap_response (JStr s) = JObj [(''message'', JStr s)]"
| "wrap_response v = v"

text \<open>
  A falsy value that \<open>update\<close> pushes to a JSONB parameter as it is, without
  \<open>JSON.stringify\<close>: \<open>null\<close> stays \<open>NULL\<close>; \<open>false\<close> and \<open>0\<close> are sent as the texts \<open>false\<close>
  and \<open>0\<close>; the empty string is not JSON text, and the statement fails.  (A non-empty
  string is truthy and never takes this path.)
\<close>

fun raw_jsonb_param :: "json option \<Rightarrow> error + json option" where
  "raw_jsonb_param None = Inr None"
| "raw_jsonb_param (Some JNull) = Inr None"
| "raw_jsonb_param (Some (JStr s)) = Inl (Error ''invalid input syntax for type json'')"
| "raw_jsonb_param (Some v) = Inr (Some v)"

text \<open>\<open>mapRow\<close> copies every column; of \<open>claim_trigger_response\<close> it returns the \<open>message\<close> of
  an object that has one, a string as it is, and \<open>null\<close> otherwise.\<close>

fun unwrap_response :: "json option \<Rightarrow> json option" where
  "unwrap_response None = None"
| "unwrap_response (Some (JObj kvs)) =
     (case map_of kvs ''message'' of
        None \<Rightarrow> None
      | Some JNull \<Rightarrow> None
      | Some m \<Rightarrow> Some m)"
| "unwrap_response (Some (JStr s)) = (if s \<noteq> [] then Some (JStr s) else None)"
| "unwrap_response (Some v) = None"

definition DelayAlertRepository_mapRow :: "DelayAlert \<Rightarrow> DelayAlert" where
  "DelayAlertRepository_mapRow row =
     row\<lparr>claim_trigger_response := unwrap_response (claim_trigger_response row)\<rparr>"

text \<open>The row that \<open>create\<close> inserts, with the defaults of its \<open>values\<close> array.\<close>

definition insert_values :: "time \<Rightarrow> DelayAlert \<Rightarrow> db \<Rightarrow> DelayAlert" where
  "insert_values now alert d =
     \<lparr>a_id = gen_random_uuid d (uuid_seq d),
      monitored_journey_id = monitored_journey_id alert,
      delay_minutes = delay_minutes alert,
      delay_detected_at = (case delay_detected_at alert of None \<Rightarrow> Some now | Some t \<Rightarrow> Some t),
      alert_delay_reasons =
        (if truthy_jopt (alert_delay_reasons alert) then alert_delay_reasons alert else None),
      is_cancellation = is_cancellation alert,
      threshold_exceeded = threshold_exceeded alert,
      claim_triggered = claim_triggered alert,
      claim_triggered_at = claim_triggered_at alert,
      claim_reference_id =
        (if truthy_opt (claim_reference_id alert) then claim_reference_id alert else None),
      claim_trigger_response =
        (if truthy_jopt (claim_trigger_response alert)
         then map_option wrap_response (claim_trigger_response alert) else None),
      notification_sent = notification_sent alert,
      notification_sent_at = notification_sent_at alert\<rparr>"

text \<open>\<open>create\<close>: the parameters must fit their columns; the table then checks
  \<open>delay_minutes > 0\<close> and the foreign key to \<open>monitored_journeys\<close>.\<close>

definition DelayAlertRepository_create ::
  "time \<Rightarrow> DelayAlert \<Rightarrow> conn \<Rightarrow> db \<Rightarrow> (error + DelayAlert) \<times> db" where
  "DelayAlertRepository_create now alert c d =
     (if blocked c d then (Inl aborted_error, d)
      else if int4_rejects (delay_minutes alert) then
        stmt_fails c (Error ''value out of range for type integer'') d
      else if jsonb_rejects (alert_delay_reasons (insert_values now alert d)) \<or>
              jsonb_rejects (claim_trigger_response (insert_values now alert d)) then
        stmt_fails c (Error ''unsupported Unicode escape sequence'') d
      else if delay_minutes alert \<le> 0 then
        stmt_fails c (Error ''new row for relation delay_alerts violates check constraint'') d
      else if \<not> (\<exists>j \<in> set (journeys d). j_id j = monitored_journey_id alert) then
        stmt_fails c (Error ''insert on table delay_alerts violates foreign key constraint'') d
      else
        (Inr (DelayAlertRepository_mapRow (insert_values now alert d)),
         exec_write c (InsertAlert (insert_values now alert d)) (d\<lparr>uuid_seq := Suc (uuid_seq d)\<rparr>)))"

definition DelayAlertRepository_findById :: "string \<Rightarrow> db \<Rightarrow> DelayAlert option" where
  "DelayAlertRepository_findById i d =
     map_option DelayAlertRepository_mapRow (find (\<lambda>a. a_id a = i) (alerts d))"

text \<open>The row an \<open>UPDATE ... RETURNING *\<close> on connection \<open>c\<close> returns.\<close>

definition returning :: "conn \<Rightarrow> string \<Rightarrow> db \<Rightarrow> DelayAlert option" where
  "returning c i d =
     map_option DelayAlertRepository_mapRow (find (\<lambda>a. a_id a = i) (alerts (visible c d)))"

definition DelayAlertRepository_markClaimTriggered ::
  "time \<Rightarrow> string \<Rightarrow> string \<Rightarrow> conn \<Rightarrow> db \<Rightarrow> (error + DelayAlert option) \<times> db" where
  "DelayAlertRepository_markClaimTriggered now i claimRef c d =
     (if blocked c d then (Inl aborted_error, d)
      else
        (let d1 = exec_write c
                    (SetAlert i (no_alert_updates\<lparr>au_claim_triggered := Some True,
                                                   au_claim_triggered_at := Some (Some now),
                                                   au_claim_reference_id := Some (Some claimRef)\<rparr>)) d
         in (Inr (returning c i d1), d1)))"

definition jsonb_delay_reasons :: "json option \<Rightarrow> error + json option" where
  "jsonb_delay_reasons v = (if truthy_jopt v then Inr v else raw_jsonb_param v)"

definition jsonb_claim_trigger_response :: "json option \<Rightarrow> error + json option" where
  "jsonb_claim_trigger_response v =
     (if truthy_jopt v then Inr (map_option wrap_response v) else raw_jsonb_param v)"

text \<open>The parameter values \<open>update\<close> builds from the fields present in \<open>updates\<close>.\<close>

definition update_values :: "AlertUpdates \<Rightarrow> error + AlertUpdates" where
  "update_values updates =
     (case (case au_delay_reasons updates of
              None \<Rightarrow> Inr None
            | Some v \<Rightarrow> (case jsonb_delay_reasons v of Inl e \<Rightarrow> Inl e | Inr w \<Rightarrow> Inr (Some w))) of
        Inl e \<Rightarrow> Inl e
      | Inr reasons \<Rightarrow>
          (case (case au_claim_trigger_response updates of
                   None \<Rightarrow> Inr None
                 | Some v \<Rightarrow> (case jsonb_claim_trigger_response v of Inl e \<Rightarrow> Inl e | Inr w \<Rightarrow> Inr (Some w))) of
             Inl e \<Rightarrow> Inl e
           | Inr response \<Rightarrow>
               Inr (updates\<lparr>au_delay_reasons := reasons, au_claim_trigger_response := response\<rparr>)))"

definition DelayAlertRepository_update ::
  "string \<Rightarrow> AlertUpdates \<Rightarrow> conn \<Rightarrow> db \<Rightarrow> (error + DelayAlert option) \<times> db" where
  "DelayAlertRepository_update i updates c d =
     (if updates = no_alert_updates then (Inr (DelayAlertRepository_findById i d), d)
      else if blocked c d then (Inl aborted_error, d)
      else
        (case update_values updates of
           Inl e \<Rightarrow> stmt_fails c e d
         | Inr vals \<Rightarrow>
             (if (case au_delay_minutes vals of None \<Rightarrow> False | Some m \<Rightarrow> int4_rejects m) then
                stmt_fails c (Error ''value out of range for type integer'') d
              else if (case au_delay_reasons vals of None \<Rightarrow> False | Some v \<Rightarrow> jsonb_rejects v) \<or>
                      (case au_claim_trigger_response vals of None \<Rightarrow> False | Some v \<Rightarrow> jsonb_rejects v) then
                stmt_fails c (Error ''unsupported Unicode escape sequence'') d
              else if (case au_delay_minutes vals of None \<Rightarrow> False | Some m \<Rightarrow> m \<le> 0) \<and>
                 returning c i d \<noteq> None then
                stmt_fails c (Error ''new row for relation delay_alerts violates check constraint'') d
              else
                (let d1 = exec_write c (SetAlert i vals) d
                 in (Inr (returning c i d1), d1)))))"

section \<open>Outbox repository and publisher (repositories/outbox-repository, services/outbox-publisher)\<close>

text \<open>\<open>create\<close> stores the event as \<open>pending\<close> with no retries; \<open>JSON.stringify\<close> drops the
  payload keys whose value is \<open>undefined\<close>, and the payload goes into a JSONB column.\<close>

definition OutboxRepository_create :: "OutboxEvent \<Rightarrow> conn \<Rightarrow> db \<Rightarrow> (error + OutboxEvent) \<times> db" where
  "OutboxRepository_create event c d =
     (if blocked c d then (Inl aborted_error, d)
      else if outbox_insert_fails d event then stmt_fails c (Error ''DB error'') d
      else if list_ex (\<lambda>kv. CHR 0x00 \<in> set (fst kv) \<or> jsonb_rejects (snd kv)) (payload event) then
        stmt_fails c (Error ''unsupported Unicode escape sequence'') d
      else
        (let row = event\<lparr>o_id := Some (gen_random_uuid d (uuid_seq d)),
                          payload := filter (\<lambda>kv. snd kv \<noteq> None) (payload event),
                          o_status := Some ''pending'',
                          retry_count := Some 0\<rparr>
         in (Inr row, exec_write c (InsertOutbox row) (d\<lparr>uuid_seq := Suc (uuid_seq d)\<rparr>))))"

record DelayDetectedData =
  dd_journeyId :: string
  dd_alertId :: string
  dd_userId :: string
  dd_delayMinutes :: int
  dd_delayReasons :: "json option"
  dd_correlationId :: "string option"

record ClaimTriggeredData =
  cd_alertId :: string
  cd_journeyId :: string
  cd_userId :: string
  cd_claimReferenceId :: string
  cd_delayMinutes :: int
  cd_correlationId :: "string option"

record JourneyCompletedData =
  jc_journeyId :: string
  jc_userId :: string
  jc_completedAt :: time
  jc_hadDelay :: bool
  jc_delayMinutes :: "int option"
  jc_correlationId :: "string option"

definition new_event :: "string \<Rightarrow> string \<Rightarrow> string \<Rightarrow> (string \<times> json option) list \<Rightarrow> OutboxEvent" where
  "new_event et at ai pl =
     \<lparr>o_id = None, event_type = et, aggregate_type = at, aggregate_id = ai, payload = pl,
      o_status = None, retry_count = None\<rparr>"

definition discard_row :: "(error + 'a) \<times> db \<Rightarrow> (error + unit) \<times> db" where
  "discard_row r = (case r of (Inl e, d) \<Rightarrow> (Inl e, d) | (Inr x, d) \<Rightarrow> (Inr (), d))"

text \<open>The builders; \<open>fresh\<close> is what \<open>randomUUID()\<close> returns when the caller gives no
  correlation id.  A timestamp in a payload is kept as its epoch milliseconds.\<close>

definition publishDelayDetected :: "string \<Rightarrow> DelayDetectedData \<Rightarrow> conn \<Rightarrow> db \<Rightarrow> (error + unit) \<times> db" where
  "publishDelayDetected fresh data c d =
     (let correlationId = (case dd_correlationId data of None \<Rightarrow> fresh | Some x \<Rightarrow> x)
      in discard_row
           (OutboxRepository_create
              (new_event ''delay.detected'' ''delay_alert'' (dd_alertId data)
                 [(''journeyId'', Some (JStr (dd_journeyId data))),
                  (''alertId'', Some (JStr (dd_alertId data))),
                  (''userId'', Some (JStr (dd_userId data))),
                  (''delayMinutes'', Some (JNum (dd_delayMinutes data))),
                  (''delayReasons'', dd_delayReasons data),
                  (''correlationId'', Some (JStr correlationId))]) c d))"

definition publishClaimTriggered :: "string \<Rightarrow> ClaimTriggeredData \<Rightarrow> conn \<Rightarrow> db \<Rightarrow> (error + unit) \<times> db" where
  "publishClaimTriggered fresh data c d =
     (let correlationId = (case cd_correlationId data of None \<Rightarrow> fresh | Some x \<Rightarrow> x)
      in discard_row
           (OutboxRepository_create
              (new_event ''claim.triggered'' ''delay_alert'' (cd_alertId data)
                 [(''alertId'', Some (JStr (cd_alertId data))),
                  (''journeyId'', Some (JStr (cd_journeyId data))),
                  (''userId'', Some (JStr (cd_userId data))),
                  (''claimReferenceId'', Some (JStr (cd_claimReferenceId data))),
                  (''delayMinutes'', Some (JNum (cd_delayMinutes data))),
                  (''correlationId'', Some (JStr correlationId))]) c d))"

definition publishJourneyCompleted :: "string \<Rightarrow> JourneyCompletedData \<Rightarrow> conn \<Rightarrow> db \<Rightarrow> (error + unit) \<times> db" where
  "publishJourneyCompleted fresh data c d =
     (let correlationId = (case jc_correlationId data of None \<Rightarrow> fresh | Some x \<Rightarrow> x)
      in discard_row
           (OutboxRepository_create
              (new_event ''journey.completed'' ''monitored_journey'' (jc_journeyId data)
                 [(''journeyId'', Some (JStr (jc_journeyId data))),
                  (''userId'', Some (JStr (jc_userId data))),
                  (''completedAt'', Some (JNum (jc_completedAt data))),
                  (''hadDelay'', Some (JBool (jc_hadDelay data))),
                  (''delayMinutes'', map_option JNum (jc_delayMinutes data)),
                  (''correlationId'', Some (JStr correlationId))]) c d))"

section \<open>Detection cycle (services/delay-tracker, \<open>DelayTrackerService.runDetectionCycle\<close>)\<close>

text \<open>
  The collaborators of the service.  A call of the matcher client returns the segments of
  the journey (\<open>None\<close> for a 404) or throws; of a segment only the RID is read.  A call of
  the upstream delays client returns an array of records, or an object with an optional
  \<open>delays\<close> array (the shape of the test doubles), or throws.  The whole cycle reads one
  instant \<open>now\<close> from the clock, and \<open>randomUUID\<close> is the correlation id it mints.
\<close>

record JourneySegment =
  seg_sequence :: nat
  seg_rid :: "string option"

datatype matcher_outcome = MatcherReturns "JourneySegment list option" | MatcherThrows error

record RawDelay =
  raw_rid :: string
  raw_total_delay_minutes :: "int option"
  raw_delay_minutes :: "int option"
  raw_cancelled :: "bool option"
  raw_is_cancelled :: "bool option"
  raw_delay_reasons :: "json option"

datatype darwin_response = AsArray "RawDelay list" | AsObject "RawDelay list option"

datatype darwin_outcome = DarwinReturns darwin_response | DarwinThrows error

record DelayTrackerService =
  darwinClient :: "string list \<Rightarrow> darwin_outcome"
  journeyMatcherClient :: "(string \<Rightarrow> matcher_outcome) option"
  delayDetector :: DelayDetector
  claimTrigger :: ClaimTrigger
  randomUUID :: string

record DetectionCycleMetrics =
  journeysChecked :: nat
  delaysDetected :: nat
  claimsTriggered :: nat
  durationMs :: int

definition extractRidsFromSegments :: "JourneySegment list \<Rightarrow> string list" where
  "extractRidsFromSegments segments =
     map (\<lambda>segment. or_empty (seg_rid segment)) (filter (\<lambda>segment. seg_rid segment \<noteq> None) segments)"

subsection \<open>Completion and partition of the due set\<close>

fun partitionLoop ::
  "DelayTrackerService \<Rightarrow> time \<Rightarrow> MonitoredJourney list \<Rightarrow>
   MonitoredJourney list \<times> MonitoredJourney list \<times> string list \<Rightarrow> db \<Rightarrow>
   (error + MonitoredJourney list \<times> MonitoredJourney list \<times> string list) \<times> db"
where
  "partitionLoop svc now [] acc d = (Inr acc, d)"
| "partitionLoop svc now (journey # rest) (pendingRidJourneys, activeJourneys, completedJourneyIds) d =
     (if scheduled_arrival journey < now then
        (case JourneyMonitor_completeJourney (j_id journey) d of
           (Inl e, d1) \<Rightarrow> (Inl e, d1)
         | (Inr u, d1) \<Rightarrow>
             (case publishJourneyCompleted (randomUUID svc)
                     \<lparr>jc_journeyId = j_id journey, jc_userId = user_id journey, jc_completedAt = now,
                      jc_hadDelay = (monitoring_status journey = Delayed), jc_delayMinutes = None,
                      jc_correlationId = Some (randomUUID svc)\<rparr> Pool d1 of
                (Inl e, d2) \<Rightarrow> (Inl e, d2)
              | (Inr u2, d2) \<Rightarrow>
                  partitionLoop svc now rest
                    (pendingRidJourneys, activeJourneys, completedJourneyIds @ [j_id journey]) d2))
      else if monitoring_status journey = Pending_rid then
        partitionLoop svc now rest (pendingRidJourneys @ [journey], activeJourneys, completedJourneyIds) d
      else if monitoring_status journey = Active then
        partitionLoop svc now rest (pendingRidJourneys, activeJourneys @ [journey], completedJourneyIds) d
      else partitionLoop svc now rest (pendingRidJourneys, activeJourneys, completedJourneyIds) d)"

subsection \<open>RID resolution\<close>

definition resolveOne :: "DelayTrackerService \<Rightarrow> time \<Rightarrow> MonitoredJourney \<Rightarrow> db \<Rightarrow> db" where
  "resolveOne svc now journey d =
     (case journeyMatcherClient svc of
        None \<Rightarrow> JourneyMonitor_updateLastChecked now [j_id journey] d
      | Some getJourneyWithSegments \<Rightarrow>
          (case getJourneyWithSegments (journey_id journey) of
             MatcherThrows e \<Rightarrow> JourneyMonitor_updateLastChecked now [j_id journey] d
           | MatcherReturns None \<Rightarrow> JourneyMonitor_updateLastChecked now [j_id journey] d
           | MatcherReturns (Some segments) \<Rightarrow>
               (if length segments > 0 then
                  (case extractRidsFromSegments segments of
                     [] \<Rightarrow> JourneyMonitor_updateLastChecked now [j_id journey] d
                   | r # others \<Rightarrow>
                       (case JourneyMonitor_resolveRid now (j_id journey) r d of
                          (Inl e, d1) \<Rightarrow> JourneyMonitor_updateLastChecked now [j_id journey] d1
                        | (Inr u, d1) \<Rightarrow> d1))
                else JourneyMonitor_updateLastChecked now [j_id journey] d)))"

fun resolveLoop :: "DelayTrackerService \<Rightarrow> time \<Rightarrow> MonitoredJourney list \<Rightarrow> db \<Rightarrow> db" where
  "resolveLoop svc now [] d = d"
| "resolveLoop svc now (journey # rest) d = resolveLoop svc now rest (resolveOne svc now journey d)"

subsection \<open>Upstream records and their mapping to journeys\<close>

definition responseData :: "darwin_response \<Rightarrow> RawDelay list" where
  "responseData rawResponse =
     (case rawResponse of
        AsArray xs \<Rightarrow> xs
      | AsObject None \<Rightarrow> []
      | AsObject (Some xs) \<Rightarrow> xs)"

definition toDelayData :: "RawDelay \<Rightarrow> DelayData" where
  "toDelayData r =
     \<lparr>d_rid = raw_rid r,
      total_delay_minutes =
        (case raw_total_delay_minutes r of
           Some m \<Rightarrow> m
         | None \<Rightarrow> (case raw_delay_minutes r of Some m \<Rightarrow> m | None \<Rightarrow> 0)),
      cancelled =
        (case raw_cancelled r of
           Some b \<Rightarrow> b
         | None \<Rightarrow> (case raw_is_cancelled r of Some b \<Rightarrow> b | None \<Rightarrow> False)),
      delay_reasons = raw_delay_reasons r\<rparr>"

text \<open>With exactly one journey and exactly one record, the record is given the journey's
  RID; otherwise the records are used as they came.\<close>

definition mapDelayData :: "MonitoredJourney list \<Rightarrow> DelayData list \<Rightarrow> DelayData list" where
  "mapDelayData journeysWithRids delayDataArray =
     (if length journeysWithRids = 1 \<and> length delayDataArray = 1 then
        [(hd delayDataArray)\<lparr>d_rid := or_empty (rid (hd journeysWithRids))\<rparr>]
      else delayDataArray)"

definition classifyActive ::
  "DelayDetector \<Rightarrow> time \<Rightarrow> MonitoredJourney list \<Rightarrow> DelayData list \<Rightarrow> DelayResult list" where
  "classifyActive det now journeysWithRids delayDataArray =
     detectDelaysBatch det now
       (map (\<lambda>j. \<lparr>jd_id = Some (j_id j), jd_rid = rid j\<rparr>) journeysWithRids)
       (mapDelayData journeysWithRids delayDataArray)"

subsection \<open>The transaction for one detected delay\<close>

text \<open>The statements between \<open>BEGIN\<close> and \<open>COMMIT\<close>.  The result says whether an exception
  left the block, by how much \<open>claimsTriggered\<close> was raised, and what the database is.\<close>

definition claim_failure_text :: "ClaimTriggerResult \<Rightarrow> string" where
  "claim_failure_text claimResult =
     (if reason claimResult = Some NOT_ELIGIBLE then
        ''Journey does not meet eligibility criteria - not eligible''
      else if truthy_opt (ctr_error claimResult) then or_empty (ctr_error claimResult)
      else (case reason claimResult of
              Some r \<Rightarrow> reason_name r
            | None \<Rightarrow> ''Claim trigger failed''))"

definition claimCatch :: "DelayAlert \<Rightarrow> error \<Rightarrow> nat \<Rightarrow> db \<Rightarrow> (error + unit) \<times> nat \<times> db" where
  "claimCatch alert e n d =
     (case DelayAlertRepository_update (a_id alert)
             (no_alert_updates\<lparr>au_claim_triggered := Some False,
                                au_claim_trigger_response := Some (Some (JStr (message e)))\<rparr>) Client d of
        (Inl e2, d1) \<Rightarrow> (Inl e2, n, d1)
      | (Inr row, d1) \<Rightarrow> (Inr (), n, d1))"

definition claimStep ::
  "DelayTrackerService \<Rightarrow> time \<Rightarrow> MonitoredJourney \<Rightarrow> DelayResult \<Rightarrow> DelayAlert \<Rightarrow> db \<Rightarrow>
   (error + unit) \<times> nat \<times> db" where
  "claimStep svc now journey result alert d =
     (let claimResult =
            fst (triggerClaim (claimTrigger svc) now
                   \<lparr>dai_id = a_id alert,
                    dai_monitored_journey_id = journeyId result,
                    dai_delay_minutes = delayMinutes result,
                    dai_user_id = user_id journey,
                    dai_claim_triggered = None,
                    dai_claim_reference_id = None\<rparr>)
      in if success claimResult \<and> truthy_opt (claimReferenceId claimResult) then
           (case DelayAlertRepository_markClaimTriggered now (a_id alert)
                   (or_empty (claimReferenceId claimResult)) Client d of
              (Inl e, d1) \<Rightarrow> claimCatch alert e 1 d1
            | (Inr row, d1) \<Rightarrow>
                (case publishClaimTriggered (randomUUID svc)
                        \<lparr>cd_alertId = a_id alert, cd_journeyId = journeyId result,
                         cd_userId = user_id journey,
                         cd_claimReferenceId = or_empty (claimReferenceId claimResult),
                         cd_delayMinutes = delayMinutes result,
                         cd_correlationId = Some (randomUUID svc)\<rparr> Client d1 of
                   (Inl e, d2) \<Rightarrow> claimCatch alert e 1 d2
                 | (Inr u, d2) \<Rightarrow> (Inr (), 1, d2)))
         else
           (case DelayAlertRepository_update (a_id alert)
                   (no_alert_updates\<lparr>au_claim_triggered := Some False,
                                      au_claim_trigger_response :=
                                        Some (Some (JStr (claim_failure_text claimResult)))\<rparr>) Client d of
              (Inl e, d1) \<Rightarrow> claimCatch alert e 0 d1
            | (Inr row, d1) \<Rightarrow> (Inr (), 0, d1)))"

definition commitBody ::
  "DelayTrackerService \<Rightarrow> time \<Rightarrow> MonitoredJourney \<Rightarrow> DelayResult \<Rightarrow> db \<Rightarrow>
   (error + unit) \<times> nat \<times> db" where
  "commitBody svc now journey result d =
     (let alertDelayMinutes =
            (if isCancelled result \<and> delayMinutes result = 0 then 1 else delayMinutes result)
      in case DelayAlertRepository_create now
                \<lparr>a_id = [],
                 monitored_journey_id = journeyId result,
                 delay_minutes = alertDelayMinutes,
                 delay_detected_at = Some (detectedAt result),
                 alert_delay_reasons = delayReasons result,
                 is_cancellation = isCancelled result,
                 threshold_exceeded = exceedsThreshold result,
                 claim_triggered = False,
                 claim_triggered_at = None,
                 claim_reference_id = None,
                 claim_trigger_response = None,
                 notification_sent = False,
                 notification_sent_at = None\<rparr> Client d of
           (Inl e, d1) \<Rightarrow> (Inl e, 0, d1)
         | (Inr alert, d1) \<Rightarrow>
             (case JourneyMonitor_updateStatus (journeyId result)
                     (if isCancelled result then Cancelled else Delayed) None d1 of
                (Inl e, d2) \<Rightarrow> (Inl e, 0, d2)
              | (Inr u, d2) \<Rightarrow>
                  (case publishDelayDetected (randomUUID svc)
                          \<lparr>dd_journeyId = journeyId result, dd_alertId = a_id alert,
                           dd_userId = user_id journey, dd_delayMinutes = delayMinutes result,
                           dd_delayReasons = delayReasons result,
                           dd_correlationId = Some (randomUUID svc)\<rparr> Client d2 of
                     (Inl e, d3) \<Rightarrow> (Inl e, 0, d3)
                   | (Inr u2, d3) \<Rightarrow>
                       (if claimEligible result \<and> \<not> isCancelled result
                        then claimStep svc now journey result alert d3
                        else (Inr (), 0, d3)))))"

text \<open>\<open>BEGIN\<close>, the block, then \<open>COMMIT\<close>, or \<open>ROLLBACK\<close> when an exception left the block.\<close>

definition commitJourney ::
  "DelayTrackerService \<Rightarrow> time \<Rightarrow> MonitoredJourney \<Rightarrow> DelayResult \<Rightarrow> db \<Rightarrow> nat \<times> db" where
  "commitJourney svc now journey result d =
     (case commitBody svc now journey result (sql_BEGIN d) of
        (Inr u, n, d1) \<Rightarrow> (n, sql_COMMIT d1)
      | (Inl e, n, d1) \<Rightarrow> (n, sql_ROLLBACK d1))"

fun processLoop ::
  "DelayTrackerService \<Rightarrow> time \<Rightarrow> MonitoredJourney list \<Rightarrow> DelayResult list \<Rightarrow> nat \<times> nat \<Rightarrow> db \<Rightarrow>
   (nat \<times> nat) \<times> db"
where
  "processLoop svc now journeysWithRids [] counts d = (counts, d)"
| "processLoop svc now journeysWithRids (result # rest) (detected, triggered) d =
     (if \<not> exceedsThreshold result \<and> \<not> isCancelled result then
        processLoop svc now journeysWithRids rest (detected, triggered) d
      else
        (case find (\<lambda>j. j_id j = journeyId result) journeysWithRids of
           None \<Rightarrow> processLoop svc now journeysWithRids rest (detected + 1, triggered) d
         | Some journey \<Rightarrow>
             (case commitJourney svc now journey result d of
                (n, d1) \<Rightarrow> processLoop svc now journeysWithRids rest (detected + 1, triggered + n) d1)))"

subsection \<open>The cycle\<close>

definition paceRemaining :: "time \<Rightarrow> MonitoredJourney list \<Rightarrow> string list \<Rightarrow> db \<Rightarrow> db" where
  "paceRemaining now journeysDue completedJourneyIds d =
     (let remainingJourneyIds =
            map j_id (filter (\<lambda>j. j_id j \<notin> set completedJourneyIds) journeysDue)
      in if length remainingJourneyIds > 0
         then JourneyMonitor_updateLastChecked now remainingJourneyIds d
         else d)"

definition runDetectionCycle ::
  "DelayTrackerService \<Rightarrow> time \<Rightarrow> db \<Rightarrow> (error + DetectionCycleMetrics) \<times> db" where
  "runDetectionCycle svc now d =
     (let journeysDue = JourneyMonitor_getJourneysDueForCheck now d;
          checked = length journeysDue
      in if checked = 0 then
           (Inr \<lparr>journeysChecked = 0, delaysDetected = 0, claimsTriggered = 0, durationMs = 0\<rparr>, d)
         else
           (case partitionLoop svc now journeysDue ([], [], []) d of
              (Inl e, d1) \<Rightarrow> (Inl e, d1)
            | (Inr (pendingRidJourneys, activeJourneys, completedJourneyIds), d1) \<Rightarrow>
                (let d2 = resolveLoop svc now pendingRidJourneys d1;
                     journeysWithRids = filter (\<lambda>j. truthy_opt (rid j)) activeJourneys
                 in if length journeysWithRids > 0 then
                      (case darwinClient svc (map (\<lambda>j. or_empty (rid j)) journeysWithRids) of
                         DarwinThrows e \<Rightarrow>
                           (Inr \<lparr>journeysChecked = checked, delaysDetected = 0,
                                 claimsTriggered = 0, durationMs = 0\<rparr>,
                            JourneyMonitor_updateLastChecked now (map j_id journeysWithRids) d2)
                       | DarwinReturns rawResponse \<Rightarrow>
                           (let delayDataArray = map toDelayData (responseData rawResponse);
                                delayResults = classifyActive (delayDetector svc) now
                                                 journeysWithRids delayDataArray
                            in case processLoop svc now journeysWithRids delayResults (0, 0) d2 of
                                 ((detected, triggered), d3) \<Rightarrow>
                                   (Inr \<lparr>journeysChecked = checked, delaysDetected = detected,
                                         claimsTriggered = triggered, durationMs = 0\<rparr>,
                                    paceRemaining now journeysDue completedJourneyIds d3)))
                    else
                      (Inr \<lparr>journeysChecked = checked, delaysDetected = 0,
                            claimsTriggered = 0, durationMs = 0\<rparr>,
                       paceRemaining now journeysDue completedJourneyIds d2))))"

section \<open>Concrete inputs used below\<close>

definition cex3_journey :: JourneyData where
  "cex3_journey = \<lparr>jd_id = Some ''J1'', jd_rid = Some ''''\<rparr>"

definition cex3_record :: DelayData where
  "cex3_record = \<lparr>d_rid = '''', total_delay_minutes = 20, cancelled = False, delay_reasons = None\<rparr>"
definition cex4_alert :: DelayAlertInput where
  "cex4_alert =
     \<lparr>dai_id = ''alert-001'', dai_monitored_journey_id = ''journey-001'', dai_delay_minutes = 20,
      dai_user_id = ''user-001'', dai_claim_triggered = None, dai_claim_reference_id = None\<rparr>"

definition cex4_response :: ClaimTriggerApiResponse where
  "cex4_response =
     \<lparr>api_success = Some False, api_claim_reference_id = None,
      api_message = Some ''Journey does not meet eligibility criteria'',
      api_eligible = Some False, api_estimated_compensation = None, api_error = None\<rparr>"

definition cex4_trigger :: ClaimTrigger where
  "cex4_trigger = ClaimTrigger_new (\<lambda>p. Returns cex4_response) None"
text \<open>An empty database whose \<open>gen_random_uuid()\<close> enumerates distinct identifiers and
  in which no statement fails.\<close>

definition empty_db :: db where
  "empty_db =
     \<lparr>journeys = [], journey_stmts = [], alerts = [], outbox = [], pending = None,
      tx_aborted = False, uuid_seq = 0,
      gen_random_uuid = (\<lambda>n. ''uuid-'' @ replicate n (CHR ''i'')),
      outbox_insert_fails = (\<lambda>e. False)\<rparr>"

definition reg_far :: RegisterJourneyData where
  "reg_far =
     \<lparr>reg_user_id = ''U1'', reg_journey_id = ''J1'', reg_service_date = ''2026-01-20'',
      reg_origin_crs = ''KGX'', reg_destination_crs = ''EDB'',
      reg_scheduled_departure = 172801000, reg_scheduled_arrival = 189001000\<rparr>"

definition reg_near :: RegisterJourneyData where
  "reg_near =
     \<lparr>reg_user_id = ''U1'', reg_journey_id = ''J2'', reg_service_date = ''2026-01-15'',
      reg_origin_crs = ''KGX'', reg_destination_crs = ''EDB'',
      reg_scheduled_departure = 3600000, reg_scheduled_arrival = 19800000\<rparr>"

definition journey_active :: MonitoredJourney where
  "journey_active =
     \<lparr>j_id = ''M1'', user_id = ''U1'', journey_id = ''J1'', rid = Some ''R1'',
      service_date = ''2026-01-15'', origin_crs = ''KGX'', destination_crs = ''EDB'',
      scheduled_departure = 3600000, scheduled_arrival = 19800000,
      monitoring_status = Active, last_checked_at = None, next_check_at = Some 900000\<rparr>"

definition db_one_active :: db where
  "db_one_active = empty_db\<lparr>journeys := [journey_active]\<rparr>"

definition resp_success :: ClaimTriggerApiResponse where
  "resp_success =
     \<lparr>api_success = Some True, api_claim_reference_id = Some ''claim-ref-001-abc123'',
      api_message = Some ''Claim successfully initiated'',
      api_eligible = Some True, api_estimated_compensation = Some 25, api_error = None\<rparr>"

definition resp_not_eligible :: ClaimTriggerApiResponse where
  "resp_not_eligible =
     \<lparr>api_success = Some True, api_claim_reference_id = None,
      api_message = Some ''Journey does not meet eligibility criteria'',
      api_eligible = Some False, api_estimated_compensation = None, api_error = None\<rparr>"

definition resp_error :: ClaimTriggerApiResponse where
  "resp_error =
     \<lparr>api_success = Some False, api_claim_reference_id = None,
      api_message = Some ''Unable to process claim at this time'',
      api_eligible = Some True, api_estimated_compensation = None, api_error = None\<rparr>"

definition resp_duplicate :: ClaimTriggerApiResponse where
  "resp_duplicate =
     \<lparr>api_success = Some False, api_claim_reference_id = Some ''existing-claim-ref-999'',
      api_message = Some ''Claim already exists for this journey'',
      api_eligible = Some True, api_estimated_compensation = None, api_error = None\<rparr>"

definition trigger_with :: "oracle_outcome \<Rightarrow> ClaimTrigger" where
  "trigger_with outcome = ClaimTrigger_new (\<lambda>p. outcome) None"

text \<open>A record as the upstream delays client returns it, and a service whose upstream
  answers with the given records and whose oracle gives the given outcome.\<close>

definition raw_delay :: "string \<Rightarrow> int \<Rightarrow> bool \<Rightarrow> RawDelay" where
  "raw_delay r m c =
     \<lparr>raw_rid = r, raw_total_delay_minutes = None, raw_delay_minutes = Some m,
      raw_cancelled = None, raw_is_cancelled = Some c, raw_delay_reasons = None\<rparr>"

definition svc_of :: "RawDelay list \<Rightarrow> oracle_outcome \<Rightarrow> DelayTrackerService" where
  "svc_of recs outcome =
     \<lparr>darwinClient = (\<lambda>rids. DarwinReturns (AsArray recs)),
      journeyMatcherClient = None,
      delayDetector = \<lparr>thresholdMinutes = 15\<rparr>,
      claimTrigger = trigger_with outcome,
      randomUUID = ''corr-1''\<rparr>"

definition db_outbox_down :: db where
  "db_outbox_down = db_one_active\<lparr>outbox_insert_fails := (\<lambda>e. True)\<rparr>"

definition alert_input :: "json option \<Rightarrow> DelayAlert" where
  "alert_input response =
     \<lparr>a_id = [], monitored_journey_id = ''M1'', delay_minutes = 25,
      delay_detected_at = Some 1000000, alert_delay_reasons = None,
      is_cancellation = False, threshold_exceeded = True,
      claim_triggered = False, claim_triggered_at = None, claim_reference_id = None,
      claim_trigger_response = response,
      notification_sent = False, notification_sent_at = None\<rparr>"

definition db_one_alert :: db where
  "db_one_alert = db_one_active\<lparr>alerts := [(alert_input None)\<lparr>a_id := ''A1''\<rparr>]\<rparr>"

definition journey_b :: MonitoredJourney where
  "journey_b = journey_active\<lparr>j_id := ''M2'', journey_id := ''J2'', rid := Some ''R2''\<rparr>"

text \<open>Two due journeys; the outbox rejects every event about journey \<open>M1\<close>.\<close>

definition db_two_active :: db where
  "db_two_active =
     empty_db\<lparr>journeys := [journey_active, journey_b],
              outbox_insert_fails := (\<lambda>e. map_of (payload e) ''journeyId'' = Some (Some (JStr ''M1'')))\<rparr>"

definition cex4_absent_success :: ClaimTriggerApiResponse where
  "cex4_absent_success =
     \<lparr>api_success = None, api_claim_reference_id = Some ''existing-claim-ref-999'',
      api_message = None, api_eligible = Some False,
      api_estimated_compensation = None, api_error = None\<rparr>"

definition cex4_empty_reference :: ClaimTriggerApiResponse where
  "cex4_empty_reference =
     \<lparr>api_success = Some False, api_claim_reference_id = Some '''',
      api_message = Some ''Unable to process claim at this time'',
      api_eligible = Some True, api_estimated_compensation = None, api_error = None\<rparr>"

section \<open>Properties of the delay detector\<close>

lemma detectLoop_append:
  "detectLoop det now ds js acc =
     acc @ map (\<lambda>j. case findDelayByRid (or_empty (jd_rid j)) ds of
                        Some d \<Rightarrow> detectDelay det now j d
                      | None \<Rightarrow> notFoundResult now j) js"
  by (induction js arbitrary: acc) (auto split: option.splits)

lemma detectDelaysBatch_map:
  "detectDelaysBatch det now js ds =
     map (\<lambda>j. case findDelayByRid (or_empty (jd_rid j)) ds of
                        Some d \<Rightarrow> detectDelay det now j d
                      | None \<Rightarrow> notFoundResult now j) js"
  by (cases js) (simp_all add: detectDelaysBatch_def detectLoop_append)

text \<open>
  Claim C3 as stated fails for a journey whose RID is the empty string: \<open>findDelayByRid\<close>
  returns nothing for a falsy RID, so the journey is reported as \<open>dataNotFound\<close> although a
  record carries the same (empty) RID and a delay of 20 minutes.
\<close>

theorem empty_rid_counterexample:
  "or_empty (jd_rid cex3_journey) = d_rid cex3_record \<and>
   total_delay_minutes cex3_record \<ge> 15 \<and>
   \<not> exceedsThreshold (hd (detectDelaysBatch \<lparr>thresholdMinutes = 15\<rparr> 0 [cex3_journey] [cex3_record])) \<and>
   dataNotFound (hd (detectDelaysBatch \<lparr>thresholdMinutes = 15\<rparr> 0 [cex3_journey] [cex3_record])) = Some True"
  by (simp add: cex3_journey_def cex3_record_def detectDelaysBatch_def findDelayByRid_def
      truthy_str_def notFoundResult_def)

text \<open>
  Claim C3, amended: the threshold defaults to 15 and a threshold \<open>T \<le> 0\<close> is rejected at
  construction.  For a detector that was constructed, the batch returns one result per
  journey; a journey whose RID is not empty and equals the RID of a record is classified
  from the first such record (\<open>isDelayed\<close> iff minutes \<open>> 0\<close> or cancelled, \<open>isCancelled\<close> iff
  cancelled, \<open>exceedsThreshold\<close> iff minutes \<open>\<ge> T\<close>, \<open>claimEligible\<close> iff \<open>exceedsThreshold\<close> or
  cancelled); a journey with an empty RID or without such a record gets
  \<open>dataNotFound = true\<close> and the four booleans false.
\<close>

theorem detector_classifies:
  "DelayDetector_new None = Inr \<lparr>thresholdMinutes = 15\<rparr> \<and>
   (T \<le> 0 \<longrightarrow> DelayDetector_new (Some T) = Inl (Error ''Threshold must be a positive number'')) \<and>
   (DelayDetector_new cfg = Inr det \<and> i < length js \<longrightarrow>
      thresholdMinutes det = (case cfg of None \<Rightarrow> 15 | Some t \<Rightarrow> t) \<and>
      length (detectDelaysBatch det now js ds) = length js \<and>
      (case (if or_empty (jd_rid (js ! i)) = [] then None
             else find (\<lambda>d. d_rid d = or_empty (jd_rid (js ! i))) ds) of
         Some d \<Rightarrow>
           isDelayed (detectDelaysBatch det now js ds ! i) = (total_delay_minutes d > 0 \<or> cancelled d) \<and>
           isCancelled (detectDelaysBatch det now js ds ! i) = cancelled d \<and>
           exceedsThreshold (detectDelaysBatch det now js ds ! i) = (total_delay_minutes d \<ge> thresholdMinutes det) \<and>
           claimEligible (detectDelaysBatch det now js ds ! i) =
             (exceedsThreshold (detectDelaysBatch det now js ds ! i) \<or> cancelled d) \<and>
           dataNotFound (detectDelaysBatch det now js ds ! i) \<noteq> Some True
       | None \<Rightarrow>
           dataNotFound (detectDelaysBatch det now js ds ! i) = Some True \<and>
           \<not> isDelayed (detectDelaysBatch det now js ds ! i) \<and>
           \<not> isCancelled (detectDelaysBatch det now js ds ! i) \<and>
           \<not> exceedsThreshold (detectDelaysBatch det now js ds ! i) \<and>
           \<not> claimEligible (detectDelaysBatch det now js ds ! i)))"
proof (intro conjI impI)
  show "DelayDetector_new None = Inr \<lparr>thresholdMinutes = 15\<rparr>"
    by (simp add: DelayDetector_new_def)
next
  assume "T \<le> 0"
  then show "DelayDetector_new (Some T) = Inl (Error ''Threshold must be a positive number'')"
    by (simp add: DelayDetector_new_def)
next
  assume h: "DelayDetector_new cfg = Inr det \<and> i < length js"
  then show "thresholdMinutes det = (case cfg of None \<Rightarrow> 15 | Some t \<Rightarrow> t)"
    by (auto simp: DelayDetector_new_def Let_def split: if_splits option.splits)
next
  show "length (detectDelaysBatch det now js ds) = length js"
    by (simp add: detectDelaysBatch_map)
next
  assume h: "DelayDetector_new cfg = Inr det \<and> i < length js"
  then have i: "i < length js" by simp
  show "(case (if or_empty (jd_rid (js ! i)) = [] then None
             else find (\<lambda>d. d_rid d = or_empty (jd_rid (js ! i))) ds) of
         Some d \<Rightarrow>
           isDelayed (detectDelaysBatch det now js ds ! i) = (total_delay_minutes d > 0 \<or> cancelled d) \<and>
           isCancelled (detectDelaysBatch det now js ds ! i) = cancelled d \<and>
           exceedsThreshold (detectDelaysBatch det now js ds ! i) = (total_delay_minutes d \<ge> thresholdMinutes det) \<and>
           claimEligible (detectDelaysBatch det now js ds ! i) =
             (exceedsThreshold (detectDelaysBatch det now js ds ! i) \<or> cancelled d) \<and>
           dataNotFound (detectDelaysBatch det now js ds ! i) \<noteq> Some True
       | None \<Rightarrow>
           dataNotFound (detectDelaysBatch det now js ds ! i) = Some True \<and>
           \<not> isDelayed (detectDelaysBatch det now js ds ! i) \<and>
           \<not> isCancelled (detectDelaysBatch det now js ds ! i) \<and>
           \<not> exceedsThreshold (detectDelaysBatch det now js ds ! i) \<and>
           \<not> claimEligible (detectDelaysBatch det now js ds ! i))"
    using i
    by (simp add: detectDelaysBatch_map findDelayByRid_def truthy_str_def detectDelay_def
        notFoundResult_def meetsThreshold_def Let_def split: option.splits)
qed

theorem detector_classifies_witness:
  "(-1::int) \<le> 0 \<and> DelayDetector_new (Some (-1)) = Inl (Error ''Threshold must be a positive number'') \<and>
   DelayDetector_new (Some 15) = Inr \<lparr>thresholdMinutes = 15\<rparr> \<and>
   exceedsThreshold (detectDelaysBatch \<lparr>thresholdMinutes = 15\<rparr> 0
      [\<lparr>jd_id = Some ''J1'', jd_rid = Some ''R1''\<rparr>]
      [\<lparr>d_rid = ''R1'', total_delay_minutes = 20, cancelled = False, delay_reasons = None\<rparr>] ! 0)"
  using detector_classifies [of "-1" "Some 15" "\<lparr>thresholdMinutes = 15\<rparr>" 0
      "[\<lparr>jd_id = Some ''J1'', jd_rid = Some ''R1''\<rparr>]" 0
      "[\<lparr>d_rid = ''R1'', total_delay_minutes = 20, cancelled = False, delay_reasons = None\<rparr>]"]
  by (simp add: DelayDetector_new_def)

section \<open>Properties of the claim trigger\<close>

text \<open>
  Claim C4 as stated fails at these inputs.  For an oracle answer with \<open>success = false\<close>, no
  reference id and \<open>eligible = false\<close>, the eligibility test comes before the test for a
  failed call, so the outcome is \<open>NOT_ELIGIBLE\<close>, not \<open>SERVICE_ERROR\<close>.  An answer without
  \<open>success\<close> is treated as one with \<open>success = false\<close>: with a reference id and
  \<open>eligible = false\<close> it is \<open>DUPLICATE_CLAIM\<close>, not \<open>NOT_ELIGIBLE\<close>.  An empty reference id counts
  as none: with \<open>success = false\<close> it is \<open>SERVICE_ERROR\<close>, not \<open>DUPLICATE_CLAIM\<close>.  And for a
  connection that fails, \<open>fetch\<close> throws an error whose message is \<open>fetch failed\<close>, which the eligibility
  client rethrows as it is; the outcome is \<open>NETWORK_ERROR\<close>, but with \<open>retryable = false\<close>,
  because the message names neither \<open>network\<close> nor \<open>timeout\<close> nor \<open>ECONNREFUSED\<close>.
\<close>

theorem not_eligible_before_service_error_counterexample:
  "api_success cex4_response = Some False \<and>
   api_claim_reference_id cex4_response = None \<and>
   dai_claim_triggered cex4_alert \<noteq> Some True \<and>
   ct_thresholdMinutes cex4_trigger \<le> dai_delay_minutes cex4_alert \<and>
   reason (fst (triggerClaim cex4_trigger 0 cex4_alert)) = Some NOT_ELIGIBLE \<and>
   reason (fst (triggerClaim cex4_trigger 0 cex4_alert)) \<noteq> Some SERVICE_ERROR \<and>
   api_success cex4_absent_success = None \<and>
   api_eligible cex4_absent_success = Some False \<and>
   reason (fst (triggerClaim (trigger_with (Returns cex4_absent_success)) 0 cex4_alert)) = Some DUPLICATE_CLAIM \<and>
   api_success cex4_empty_reference = Some False \<and>
   api_claim_reference_id cex4_empty_reference = Some [] \<and>
   reason (fst (triggerClaim (trigger_with (Returns cex4_empty_reference)) 0 cex4_alert)) = Some SERVICE_ERROR \<and>
   EligibilityEngineClient_triggerClaim (FetchThrows (ThrownError ''fetch failed'')) =
     Throws (ThrownError ''fetch failed'') \<and>
   reason (fst (triggerClaim
                  (trigger_with (EligibilityEngineClient_triggerClaim (FetchThrows (ThrownError ''fetch failed''))))
                  0 cex4_alert)) = Some NETWORK_ERROR \<and>
   retryable (fst (triggerClaim
                     (trigger_with (EligibilityEngineClient_triggerClaim (FetchThrows (ThrownError ''fetch failed''))))
                     0 cex4_alert)) = Some False"
  by code_simp

text \<open>
  Claim C4, amended.  An alert already marked \<open>claim_triggered\<close> gives \<open>ALREADY_TRIGGERED\<close> with
  the alert's reference, and an alert below the threshold gives \<open>BELOW_THRESHOLD\<close>, both
  without a call to the oracle.  Otherwise the oracle is called, with the alert's user,
  journey and minutes, and its answer is classified in this order: \<open>success\<close> not true (false
  or absent) and a non-empty reference id give \<open>DUPLICATE_CLAIM\<close> with that id as the existing
  reference; otherwise \<open>eligible = false\<close> gives \<open>NOT_ELIGIBLE\<close>; otherwise \<open>success\<close> not true
  gives \<open>SERVICE_ERROR\<close> with \<open>retryable = false\<close>; otherwise (\<open>success = true\<close>, \<open>eligible\<close> not
  false) the call succeeds and returns the answer's reference id and estimated
  compensation.  Every thrown exception gives \<open>NETWORK_ERROR\<close>, and the
  timeout error of the eligibility client gives it with \<open>retryable = true\<close>.  Nothing is said
  of \<open>retryable\<close> for the other exceptions.
\<close>

theorem triggerClaim_classifies:
  "(dai_claim_triggered a = Some True \<longrightarrow>
      triggerClaim ct now a =
        (emptyResult\<lparr>reason := Some ALREADY_TRIGGERED,
                      existingClaimReferenceId := dai_claim_reference_id a,
                      triggeredAt := Some now, delayAlertId := Some (dai_id a)\<rparr>, [])) \<and>
   (dai_claim_triggered a \<noteq> Some True \<and> dai_delay_minutes a < ct_thresholdMinutes ct \<longrightarrow>
      triggerClaim ct now a =
        (emptyResult\<lparr>reason := Some BELOW_THRESHOLD,
                      triggeredAt := Some now, delayAlertId := Some (dai_id a)\<rparr>, [])) \<and>
   (dai_claim_triggered a \<noteq> Some True \<and> ct_thresholdMinutes ct \<le> dai_delay_minutes a \<longrightarrow>
      snd (triggerClaim ct now a) = [oracle_params a] \<and>
      (\<forall>resp. eligibilityClient ct (oracle_params a) = Returns resp \<longrightarrow>
         (api_success resp \<noteq> Some True \<and> truthy_opt (api_claim_reference_id resp) \<longrightarrow>
            \<not> success (fst (triggerClaim ct now a)) \<and>
            reason (fst (triggerClaim ct now a)) = Some DUPLICATE_CLAIM \<and>
            existingClaimReferenceId (fst (triggerClaim ct now a)) = api_claim_reference_id resp) \<and>
         (\<not> (api_success resp \<noteq> Some True \<and> truthy_opt (api_claim_reference_id resp)) \<and>
          api_eligible resp = Some False \<longrightarrow>
            \<not> success (fst (triggerClaim ct now a)) \<and>
            reason (fst (triggerClaim ct now a)) = Some NOT_ELIGIBLE) \<and>
         (api_success resp \<noteq> Some True \<and> \<not> truthy_opt (api_claim_reference_id resp) \<and>
          api_eligible resp \<noteq> Some False \<longrightarrow>
            \<not> success (fst (triggerClaim ct now a)) \<and>
            reason (fst (triggerClaim ct now a)) = Some SERVICE_ERROR \<and>
            retryable (fst (triggerClaim ct now a)) = Some False) \<and>
         (api_success resp = Some True \<and> api_eligible resp \<noteq> Some False \<longrightarrow>
            success (fst (triggerClaim ct now a)) \<and>
            reason (fst (triggerClaim ct now a)) = None \<and>
            claimReferenceId (fst (triggerClaim ct now a)) = api_claim_reference_id resp \<and>
            estimatedCompensation (fst (triggerClaim ct now a)) = api_estimated_compensation resp)) \<and>
      (\<forall>err. eligibilityClient ct (oracle_params a) = Throws err \<longrightarrow>
         \<not> success (fst (triggerClaim ct now a)) \<and>
         reason (fst (triggerClaim ct now a)) = Some NETWORK_ERROR) \<and>
      (eligibilityClient ct (oracle_params a) = EligibilityEngineClient_triggerClaim FetchAborted \<longrightarrow>
         \<not> success (fst (triggerClaim ct now a)) \<and>
         reason (fst (triggerClaim ct now a)) = Some NETWORK_ERROR \<and>
         retryable (fst (triggerClaim ct now a)) = Some True))"
proof -
  have t: "str_includes (toLowerCase ''Eligibility API request timeout'') ''timeout''"
    by code_simp
  show ?thesis
    using t by (auto simp: triggerClaim_def isTrue_def emptyResult_def Let_def)
qed

theorem triggerClaim_classifies_witness:
  "triggerClaim (trigger_with (Returns resp_success)) 0
      (cex4_alert\<lparr>dai_claim_triggered := Some True, dai_claim_reference_id := Some ''claim-1''\<rparr>) =
     (emptyResult\<lparr>reason := Some ALREADY_TRIGGERED, existingClaimReferenceId := Some ''claim-1'',
                   triggeredAt := Some 0, delayAlertId := Some ''alert-001''\<rparr>, []) \<and>
   triggerClaim (trigger_with (Returns resp_success)) 0 (cex4_alert\<lparr>dai_delay_minutes := 14\<rparr>) =
     (emptyResult\<lparr>reason := Some BELOW_THRESHOLD,
                   triggeredAt := Some 0, delayAlertId := Some ''alert-001''\<rparr>, []) \<and>
   reason (fst (triggerClaim (trigger_with (Returns resp_duplicate)) 0 cex4_alert)) = Some DUPLICATE_CLAIM \<and>
   existingClaimReferenceId (fst (triggerClaim (trigger_with (Returns resp_duplicate)) 0 cex4_alert))
     = Some ''existing-claim-ref-999'' \<and>
   reason (fst (triggerClaim (trigger_with (Returns resp_not_eligible)) 0 cex4_alert)) = Some NOT_ELIGIBLE \<and>
   reason (fst (triggerClaim (trigger_with (Returns resp_error)) 0 cex4_alert)) = Some SERVICE_ERROR \<and>
   retryable (fst (triggerClaim (trigger_with (Returns resp_error)) 0 cex4_alert)) = Some False \<and>
   success (fst (triggerClaim (trigger_with (Returns resp_success)) 0 cex4_alert)) \<and>
   claimReferenceId (fst (triggerClaim (trigger_with (Returns resp_success)) 0 cex4_alert))
     = Some ''claim-ref-001-abc123'' \<and>
   estimatedCompensation (fst (triggerClaim (trigger_with (Returns resp_success)) 0 cex4_alert)) = Some 25 \<and>
   snd (triggerClaim (trigger_with (Returns resp_success)) 0 cex4_alert) = [oracle_params cex4_alert] \<and>
   reason (fst (triggerClaim (trigger_with (Throws (ThrownError ''Network error''))) 0 cex4_alert))
     = Some NETWORK_ERROR \<and>
   reason (fst (triggerClaim (trigger_with (EligibilityEngineClient_triggerClaim FetchAborted)) 0 cex4_alert))
     = Some NETWORK_ERROR \<and>
   retryable (fst (triggerClaim (trigger_with (EligibilityEngineClient_triggerClaim FetchAborted)) 0 cex4_alert))
     = Some True"
proof -
  have t: "\<And>outcome. ct_thresholdMinutes (trigger_with outcome) = 15"
          "\<And>outcome p. eligibilityClient (trigger_with outcome) p = outcome"
    by (simp_all add: trigger_with_def ClaimTrigger_new_def)
  have a: "dai_delay_minutes cex4_alert = 20" "dai_claim_triggered cex4_alert = None"
          "dai_id cex4_alert = ''alert-001''"
    by (simp_all add: cex4_alert_def)
  show ?thesis
    using triggerClaim_classifies [of "cex4_alert\<lparr>dai_claim_triggered := Some True,
              dai_claim_reference_id := Some ''claim-1''\<rparr>" "trigger_with (Returns resp_success)" 0]
          triggerClaim_classifies [of "cex4_alert\<lparr>dai_delay_minutes := 14\<rparr>"
              "trigger_with (Returns resp_success)" 0]
          triggerClaim_classifies [of cex4_alert "trigger_with (Returns resp_duplicate)" 0]
          triggerClaim_classifies [of cex4_alert "trigger_with (Returns resp_not_eligible)" 0]
          triggerClaim_classifies [of cex4_alert "trigger_with (Returns resp_error)" 0]
          triggerClaim_classifies [of cex4_alert "trigger_with (Returns resp_success)" 0]
          triggerClaim_classifies [of cex4_alert "trigger_with (Throws (ThrownError ''Network error''))" 0]
          triggerClaim_classifies [of cex4_alert
              "trigger_with (EligibilityEngineClient_triggerClaim FetchAborted)" 0]
    by (simp add: t a resp_success_def resp_duplicate_def resp_not_eligible_def resp_error_def
        truthy_str_def)
qed

section \<open>Properties of the journey monitor\<close>

lemma find_map_update:
  "find (\<lambda>j. j_id j = i) xs = Some j \<Longrightarrow> (\<And>x. j_id (f x) = j_id x) \<Longrightarrow>
   find (\<lambda>j. j_id j = i) (map (\<lambda>j. if j_id j = i then f j else j) xs) = Some (f j)"
  by (induction xs) (auto split: if_splits)

lemma find_none_map_update:
  "find (\<lambda>j. j_id j = i) xs = None \<Longrightarrow> map (\<lambda>j. if j_id j = i then f j else j) xs = xs"
  by (induction xs) (auto split: if_splits)

text \<open>
  Claim C7: registering a journey whose \<open>journey_id\<close> has no row yet creates exactly one row,
  in status \<open>pending_rid\<close>, with \<open>next_check_at = scheduled_departure - 48h\<close> when the
  departure is more than 48 hours (172800000 ms) after \<open>now\<close>, and
  \<open>next_check_at = now + 5 min\<close> (300000 ms) otherwise.  The witness registers a journey that
  departs 48 h + 1 s after \<open>now\<close> and one that departs one hour after \<open>now\<close>.
\<close>

theorem registerJourney_schedules:
  "JourneyRepository_findByJourneyId (reg_journey_id data) d = None \<Longrightarrow>
   \<exists>j d'. JourneyMonitor_registerJourney now data d = (Inr j, d') \<and>
          journeys d' = journeys d @ [j] \<and>
          journey_id j = reg_journey_id data \<and>
          monitoring_status j = Pending_rid \<and>
          next_check_at j =
            Some (if reg_scheduled_departure data - now > 172800000
                  then reg_scheduled_departure data - 172800000
                  else now + 300000)"
proof -
  assume h: "JourneyRepository_findByJourneyId (reg_journey_id data) d = None"
  then have "\<not> (\<exists>j \<in> set (journeys d). journey_id j = reg_journey_id data)"
    by (simp add: JourneyRepository_findByJourneyId_def find_None_iff)
  with h show ?thesis
    by (simp add: JourneyMonitor_registerJourney_def JourneyRepository_create_def Let_def
        t48Hours_def checkIntervalMinutes_def)
qed

theorem registerJourney_schedules_witness:
  "JourneyRepository_findByJourneyId (reg_journey_id reg_far) empty_db = None \<and>
   reg_scheduled_departure reg_far - 0 = 172800000 + 1000 \<and>
   (\<exists>j d'. JourneyMonitor_registerJourney 0 reg_far empty_db = (Inr j, d') \<and>
      monitoring_status j = Pending_rid \<and> next_check_at j = Some 1000) \<and>
   JourneyRepository_findByJourneyId (reg_journey_id reg_near) empty_db = None \<and>
   (\<exists>j d'. JourneyMonitor_registerJourney 0 reg_near empty_db = (Inr j, d') \<and>
      monitoring_status j = Pending_rid \<and> next_check_at j = Some 300000)"
proof -
  have a: "JourneyRepository_findByJourneyId (reg_journey_id reg_far) empty_db = None"
    by (simp add: JourneyRepository_findByJourneyId_def empty_db_def)
  have b: "JourneyRepository_findByJourneyId (reg_journey_id reg_near) empty_db = None"
    by (simp add: JourneyRepository_findByJourneyId_def empty_db_def)
  from registerJourney_schedules [OF a, of 0] registerJourney_schedules [OF b, of 0] a b
  show ?thesis
    by (auto simp: reg_far_def reg_near_def)
qed

text \<open>
  Claim C8: for a journey that \<open>findById\<close> returns, \<open>updateStatus\<close> succeeds and stores the new
  status when the transition is one of \<open>pending_rid \<rightarrow> active, cancelled\<close>;
  \<open>active \<rightarrow> delayed, completed, cancelled\<close>; \<open>delayed \<rightarrow> completed, cancelled\<close>; any other
  transition (so every transition out of \<open>completed\<close> or \<open>cancelled\<close>) raises the
  invalid-transition error and leaves the database as it was.
\<close>

theorem updateStatus_permitted_only:
  "JourneyRepository_findById i d = Some j \<Longrightarrow>
   ((monitoring_status j, new) \<in>
        {(Pending_rid, Active), (Pending_rid, Cancelled),
         (Active, Delayed), (Active, Completed), (Active, Cancelled),
         (Delayed, Completed), (Delayed, Cancelled)} \<longrightarrow>
      fst (JourneyMonitor_updateStatus i new add d) = Inr () \<and>
      map_option monitoring_status
        (JourneyRepository_findById i (snd (JourneyMonitor_updateStatus i new add d))) = Some new) \<and>
   ((monitoring_status j, new) \<notin>
        {(Pending_rid, Active), (Pending_rid, Cancelled),
         (Active, Delayed), (Active, Completed), (Active, Cancelled),
         (Delayed, Completed), (Delayed, Cancelled)} \<longrightarrow>
      JourneyMonitor_updateStatus i new add d =
        (Inl (invalid_transition (monitoring_status j) new), d))"
proof -
  assume h: "JourneyRepository_findById i d = Some j"
  then have f: "find (\<lambda>j. j_id j = i) (journeys d) = Some j"
    by (simp add: JourneyRepository_findById_def)
  have u1: "map_option monitoring_status
      (JourneyRepository_findById i (JourneyRepository_updateStatus i new add d)) = Some new"
    using find_map_update [OF f, of "\<lambda>j. j\<lparr>monitoring_status := new, rid := add\<rparr>"]
          find_map_update [OF f, of "\<lambda>j. j\<lparr>monitoring_status := new\<rparr>"]
    by (simp add: JourneyRepository_findById_def JourneyRepository_updateStatus_def)
  show ?thesis
    using h u1
    by (cases "monitoring_status j"; cases new)
       (simp_all add: JourneyMonitor_updateStatus_def)
qed

theorem updateStatus_permitted_only_witness:
  "JourneyRepository_findById ''M1'' db_one_active = Some journey_active \<and>
   fst (JourneyMonitor_updateStatus ''M1'' Delayed None db_one_active) = Inr () \<and>
   map_option monitoring_status
     (JourneyRepository_findById ''M1'' (snd (JourneyMonitor_updateStatus ''M1'' Delayed None db_one_active)))
     = Some Delayed \<and>
   JourneyMonitor_updateStatus ''M1'' Pending_rid None db_one_active =
     (Inl (invalid_transition Active Pending_rid), db_one_active)"
proof -
  have a: "JourneyRepository_findById ''M1'' db_one_active = Some journey_active"
    by (simp add: JourneyRepository_findById_def db_one_active_def journey_active_def)
  have s: "monitoring_status journey_active = Active"
    by (simp add: journey_active_def)
  from updateStatus_permitted_only [OF a, of Delayed None]
       updateStatus_permitted_only [OF a, of Pending_rid None] a s
  show ?thesis by simp
qed

text \<open>
  Claim C9: when \<open>findById\<close> returns no journey for the identifier, \<open>updateStatus\<close> raises
  nothing for any target status, and the status update is still sent to the store for
  that identifier (it changes no row).
\<close>

theorem updateStatus_missing_journey:
  "JourneyRepository_findById i d = None \<Longrightarrow>
   fst (JourneyMonitor_updateStatus i new add d) = Inr () \<and>
   journeys (snd (JourneyMonitor_updateStatus i new add d)) = journeys d \<and>
   journey_stmts (snd (JourneyMonitor_updateStatus i new add d)) =
     journey_stmts d @ [UpdateStatus i new (if truthy_opt add then add else None)]"
proof -
  assume h: "JourneyRepository_findById i d = None"
  then have f: "find (\<lambda>j. j_id j = i) (journeys d) = None"
    by (simp add: JourneyRepository_findById_def)
  show ?thesis
    using h find_none_map_update [OF f]
    by (simp add: JourneyMonitor_updateStatus_def JourneyRepository_updateStatus_def)
qed

theorem updateStatus_missing_journey_witness:
  "JourneyRepository_findById ''nope'' db_one_active = None \<and>
   fst (JourneyMonitor_updateStatus ''nope'' Pending_rid None db_one_active) = Inr () \<and>
   journey_stmts (snd (JourneyMonitor_updateStatus ''nope'' Pending_rid None db_one_active)) =
     [UpdateStatus ''nope'' Pending_rid None]"
proof -
  have a: "JourneyRepository_findById ''nope'' db_one_active = None"
    by (simp add: JourneyRepository_findById_def db_one_active_def journey_active_def)
  from updateStatus_missing_journey [OF a, of Pending_rid None] a
  show ?thesis by (simp add: db_one_active_def empty_db_def)
qed

section \<open>Properties of the delay alert repository\<close>

lemma find_alert_map_update:
  "find (\<lambda>a. a_id a = i) xs = Some a \<Longrightarrow> (\<And>x. a_id (f x) = a_id x) \<Longrightarrow>
   find (\<lambda>a. a_id a = i) (map (\<lambda>a. if a_id a = i then f a else a) xs) = Some (f a)"
  by (induction xs) (auto split: if_splits)

lemma find_append_fresh:
  "i \<notin> a_id ` set xs \<Longrightarrow> a_id x = i \<Longrightarrow> find (\<lambda>a. a_id a = i) (xs @ [x]) = Some x"
  by (induction xs) auto

lemma a_id_apply_alert_updates: "a_id (apply_alert_updates u x) = a_id x"
  by (simp add: apply_alert_updates_def)

lemma update_values_response:
  "update_values u = Inr vals \<Longrightarrow> au_claim_trigger_response u = Some (Some (JStr s)) \<Longrightarrow> s \<noteq> [] \<Longrightarrow>
   au_claim_trigger_response vals = Some (Some (JObj [(''message'', JStr s)]))"
  by (auto simp: update_values_def jsonb_claim_trigger_response_def split: option.splits sum.splits)

lemma exec_pool: "exec_write Pool w d = apply_write w d"
  by (simp add: exec_write_def split: option.splits)

lemma unwrap_wrapped: "unwrap_response (Some (JObj [(''message'', JStr s)])) = Some (JStr s)"
  by simp

text \<open>The table's check constraint: no alert with non-positive minutes is ever inserted.\<close>

lemma create_rejects_nonpositive:
  "delay_minutes a \<le> 0 \<Longrightarrow> \<exists>e. fst (DelayAlertRepository_create now a c d) = Inl e"
  by (simp add: DelayAlertRepository_create_def stmt_fails_def)

text \<open>What a \<open>create\<close> or an \<open>update\<close> on the pool that did not raise has done.\<close>

lemma create_pool_success:
  "DelayAlertRepository_create now alert Pool d = (Inr a, d') \<Longrightarrow>
   a = DelayAlertRepository_mapRow (insert_values now alert d) \<and>
   d' = apply_write (InsertAlert (insert_values now alert d)) (d\<lparr>uuid_seq := Suc (uuid_seq d)\<rparr>)"
  by (auto simp: DelayAlertRepository_create_def stmt_fails_def exec_pool split: if_splits)

lemma update_pool_success:
  "DelayAlertRepository_update i u Pool d = (Inr r, d') \<Longrightarrow> u \<noteq> no_alert_updates \<Longrightarrow>
   \<exists>vals. update_values u = Inr vals \<and> d' = apply_write (SetAlert i vals) d \<and> r = returning Pool i d'"
  by (auto simp: DelayAlertRepository_update_def blocked_def in_tx_def stmt_fails_def exec_pool Let_def
      split: if_splits sum.splits)

text \<open>
  Claim C10 as stated fails for two kinds of string.  \<open>create\<close> wraps a response only when it
  is truthy, so for the empty string the column holds \<open>NULL\<close> and the alert reads back \<open>null\<close>.
  And a string with the character U+0000 is rejected by the JSONB column: \<open>create\<close> and
  \<open>update\<close> raise and nothing is stored.
\<close>

theorem empty_response_counterexample:
  "map claim_trigger_response
     (alerts (snd (DelayAlertRepository_create 0 (alert_input (Some (JStr ''''))) Pool db_one_active))) = [None] \<and>
   map_sum id claim_trigger_response
     (fst (DelayAlertRepository_create 0 (alert_input (Some (JStr ''''))) Pool db_one_active)) = Inr None \<and>
   map_option claim_trigger_response
     (DelayAlertRepository_findById ''uuid-''
        (snd (DelayAlertRepository_create 0 (alert_input (Some (JStr ''''))) Pool db_one_active))) = Some None \<and>
   fst (DelayAlertRepository_create 0 (alert_input (Some (JStr [CHR 0x00]))) Pool db_one_active) =
     Inl (Error ''unsupported Unicode escape sequence'') \<and>
   alerts (snd (DelayAlertRepository_create 0 (alert_input (Some (JStr [CHR 0x00]))) Pool db_one_active)) = [] \<and>
   fst (DelayAlertRepository_update ''A1''
          (no_alert_updates\<lparr>au_claim_trigger_response := Some (Some (JStr [CHR 0x00]))\<rparr>) Pool db_one_alert) =
     Inl (Error ''unsupported Unicode escape sequence'')"
  by code_simp

text \<open>
  Claim C10, amended to the strings that are stored: when \<open>create\<close> (with a fresh identifier)
  or an \<open>update\<close> of an existing row is given a non-empty string \<open>s\<close> as
  \<open>claim_trigger_response\<close> and does not raise, the column of the row holds the object
  \<open>{message: s}\<close>, and both the row returned and the row read back by \<open>findById\<close> carry \<open>s\<close>
  itself.  The witness stores and reads back \<open>not eligible\<close> through both.
\<close>

theorem response_round_trip:
  "s \<noteq> [] \<Longrightarrow>
   (DelayAlertRepository_create now (alert\<lparr>claim_trigger_response := Some (JStr s)\<rparr>) Pool d = (Inr a, d') \<and>
    gen_random_uuid d (uuid_seq d) \<notin> a_id ` set (alerts d) \<longrightarrow>
      map_option claim_trigger_response (find (\<lambda>x. a_id x = a_id a) (alerts d')) =
        Some (Some (JObj [(''message'', JStr s)])) \<and>
      claim_trigger_response a = Some (JStr s) \<and>
      map_option claim_trigger_response (DelayAlertRepository_findById (a_id a) d') = Some (Some (JStr s))) \<and>
   (au_claim_trigger_response u = Some (Some (JStr s)) \<and>
    find (\<lambda>x. a_id x = i) (alerts e) \<noteq> None \<and>
    DelayAlertRepository_update i u Pool e = (Inr r, e') \<longrightarrow>
      map_option claim_trigger_response (find (\<lambda>x. a_id x = i) (alerts e')) =
        Some (Some (JObj [(''message'', JStr s)])) \<and>
      map_option claim_trigger_response r = Some (Some (JStr s)) \<and>
      map_option claim_trigger_response (DelayAlertRepository_findById i e') = Some (Some (JStr s)))"
proof (intro conjI impI)
  assume s: "s \<noteq> []"
  assume h: "DelayAlertRepository_create now (alert\<lparr>claim_trigger_response := Some (JStr s)\<rparr>) Pool d = (Inr a, d') \<and>
    gen_random_uuid d (uuid_seq d) \<notin> a_id ` set (alerts d)"
  let ?alert = "alert\<lparr>claim_trigger_response := Some (JStr s)\<rparr>"
  let ?row = "insert_values now ?alert d"
  have id: "a_id ?row = gen_random_uuid d (uuid_seq d)"
    and resp: "claim_trigger_response ?row = Some (JObj [(''message'', JStr s)])"
    using s by (simp_all add: insert_values_def)
  from h have a: "a = DelayAlertRepository_mapRow ?row"
    and d': "d' = apply_write (InsertAlert ?row) (d\<lparr>uuid_seq := Suc (uuid_seq d)\<rparr>)"
    using create_pool_success [of now ?alert d a d'] by simp_all
  have ida: "a_id a = a_id ?row"
    by (simp add: a DelayAlertRepository_mapRow_def)
  have f: "find (\<lambda>x. a_id x = a_id a) (alerts d') = Some ?row"
    using h id by (simp add: d' ida find_append_fresh)
  show "map_option claim_trigger_response (find (\<lambda>x. a_id x = a_id a) (alerts d')) =
        Some (Some (JObj [(''message'', JStr s)]))"
    by (simp add: f resp)
  show "claim_trigger_response a = Some (JStr s)"
    by (simp add: a DelayAlertRepository_mapRow_def resp)
  show "map_option claim_trigger_response (DelayAlertRepository_findById (a_id a) d') = Some (Some (JStr s))"
    by (simp add: DelayAlertRepository_findById_def f DelayAlertRepository_mapRow_def resp)
next
  assume s: "s \<noteq> []"
  assume h: "au_claim_trigger_response u = Some (Some (JStr s)) \<and>
    find (\<lambda>x. a_id x = i) (alerts e) \<noteq> None \<and>
    DelayAlertRepository_update i u Pool e = (Inr r, e')"
  then obtain a0 where a0: "find (\<lambda>x. a_id x = i) (alerts e) = Some a0" by auto
  from h have ne: "u \<noteq> no_alert_updates" by (auto simp: no_alert_updates_def)
  from h ne obtain vals where v: "update_values u = Inr vals"
    and e': "e' = apply_write (SetAlert i vals) e" and r: "r = returning Pool i e'"
    using update_pool_success [of i u e r e'] by auto
  have resp: "au_claim_trigger_response vals = Some (Some (JObj [(''message'', JStr s)]))"
    using update_values_response [OF v _ s] h by simp
  have fnd: "find (\<lambda>x. a_id x = i) (alerts e') = Some (apply_alert_updates vals a0)"
    using find_alert_map_update [OF a0, of "apply_alert_updates vals"]
    by (simp add: e' a_id_apply_alert_updates)
  have c: "claim_trigger_response (apply_alert_updates vals a0) = Some (JObj [(''message'', JStr s)])"
    by (simp add: apply_alert_updates_def resp set_opt_def)
  show "map_option claim_trigger_response (find (\<lambda>x. a_id x = i) (alerts e')) =
        Some (Some (JObj [(''message'', JStr s)]))"
    by (simp add: fnd c)
  show "map_option claim_trigger_response r = Some (Some (JStr s))"
    by (simp add: r returning_def visible_def fnd c DelayAlertRepository_mapRow_def split: option.splits)
  show "map_option claim_trigger_response (DelayAlertRepository_findById i e') = Some (Some (JStr s))"
    by (simp add: DelayAlertRepository_findById_def fnd c DelayAlertRepository_mapRow_def)
qed

theorem response_round_trip_witness:
  "''not eligible'' \<noteq> [] \<and>
   (case fst (DelayAlertRepository_create 0 (alert_input (Some (JStr ''not eligible''))) Pool db_one_alert) of
      Inr a \<Rightarrow> claim_trigger_response a = Some (JStr ''not eligible'') | Inl x \<Rightarrow> False) \<and>
   map claim_trigger_response
     (alerts (snd (DelayAlertRepository_create 0 (alert_input (Some (JStr ''not eligible''))) Pool db_one_alert))) =
     [None, Some (JObj [(''message'', JStr ''not eligible'')])] \<and>
   map claim_trigger_response
     (alerts (snd (DelayAlertRepository_update ''A1''
                (no_alert_updates\<lparr>au_claim_triggered := Some False,
                                   au_claim_trigger_response := Some (Some (JStr ''not eligible''))\<rparr>)
                Pool db_one_alert))) = [Some (JObj [(''message'', JStr ''not eligible'')])] \<and>
   map_option claim_trigger_response
     (DelayAlertRepository_findById ''A1''
        (snd (DelayAlertRepository_update ''A1''
                (no_alert_updates\<lparr>au_claim_triggered := Some False,
                                   au_claim_trigger_response := Some (Some (JStr ''not eligible''))\<rparr>)
                Pool db_one_alert))) = Some (Some (JStr ''not eligible''))"
proof -
  let ?in = "alert_input (Some (JStr ''not eligible''))"
  let ?C = "DelayAlertRepository_create 0 ?in Pool db_one_alert"
  let ?u = "no_alert_updates\<lparr>au_claim_triggered := Some False,
                             au_claim_trigger_response := Some (Some (JStr ''not eligible''))\<rparr>"
  let ?U = "DelayAlertRepository_update ''A1'' ?u Pool db_one_alert"
  have s: "''not eligible'' \<noteq> []" by simp
  have inp: "(alert_input None)\<lparr>claim_trigger_response := Some (JStr ''not eligible'')\<rparr> = ?in"
    by (simp add: alert_input_def)
  have okC: "(case fst ?C of Inr x \<Rightarrow> True | Inl x \<Rightarrow> False)"
    by code_simp
  then have C: "?C = (Inr (projr (fst ?C)), snd ?C)"
    by (cases ?C) (auto split: sum.splits)
  have fresh: "gen_random_uuid db_one_alert (uuid_seq db_one_alert) \<notin> a_id ` set (alerts db_one_alert)"
    by (simp add: alert_input_def db_one_alert_def db_one_active_def empty_db_def)
  have okU: "(case fst ?U of Inr x \<Rightarrow> True | Inl x \<Rightarrow> False)"
    by code_simp
  then have U: "?U = (Inr (projr (fst ?U)), snd ?U)"
    by (cases ?U) (auto split: sum.splits)
  have u: "au_claim_trigger_response ?u = Some (Some (JStr ''not eligible''))"
    by simp
  have f: "find (\<lambda>x. a_id x = ''A1'') (alerts db_one_alert) \<noteq> None"
    by (simp add: db_one_alert_def alert_input_def)
  have st: "map claim_trigger_response (alerts (snd ?C)) =
              [None, Some (JObj [(''message'', JStr ''not eligible'')])]"
           "map claim_trigger_response (alerts (snd ?U)) = [Some (JObj [(''message'', JStr ''not eligible'')])]"
    by code_simp+
  have rt: "claim_trigger_response (projr (fst ?C)) = Some (JStr ''not eligible'') \<and>
            map_option claim_trigger_response (DelayAlertRepository_findById ''A1'' (snd ?U)) =
              Some (Some (JStr ''not eligible''))"
    using response_round_trip [OF s, where alert = "alert_input None" and d = db_one_alert and now = 0
            and a = "projr (fst ?C)" and d' = "snd ?C"
            and u = ?u and i = "''A1''" and e = db_one_alert and r = "projr (fst ?U)" and e' = "snd ?U"]
          C U u f fresh inp
    by simp
  from okC rt have "(case fst ?C of
      Inr a \<Rightarrow> claim_trigger_response a = Some (JStr ''not eligible'') | Inl x \<Rightarrow> False)"
    by (cases "fst ?C") simp_all
  with s st rt show ?thesis by simp
qed

section \<open>Properties of the detection cycle\<close>

subsection \<open>What the transaction covers\<close>

text \<open>
  Every statement the per-journey block sends on the client is held back until \<open>COMMIT\<close>, so a
  block that raises leaves \<open>delay_alerts\<close> and \<open>outbox\<close> as they were before \<open>BEGIN\<close>.  The update
  of the journey's status is not among these statements: it goes to the pool.
\<close>

lemma deferred_trans: "deferred d d1 \<Longrightarrow> deferred d1 d2 \<Longrightarrow> deferred d d2"
  by (simp add: deferred_def)

lemma deferred_open: "deferred d d' \<Longrightarrow> tx_open d'"
  by (simp add: deferred_def)

lemma create_deferred:
  "tx_open d \<Longrightarrow> DelayAlertRepository_create now a Client d = (r, d') \<Longrightarrow> deferred d d'"
  by (auto simp: DelayAlertRepository_create_def deferred_def tx_open_def exec_write_def
      stmt_fails_def split: if_splits)

lemma updateStatus_deferred:
  "tx_open d \<Longrightarrow> JourneyMonitor_updateStatus i new add d = (r, d') \<Longrightarrow> deferred d d'"
  by (auto simp: JourneyMonitor_updateStatus_def JourneyRepository_updateStatus_def deferred_def
      tx_open_def split: option.splits if_splits)

lemma outbox_create_deferred:
  "tx_open d \<Longrightarrow> OutboxRepository_create e Client d = (r, d') \<Longrightarrow> deferred d d'"
  by (auto simp: OutboxRepository_create_def deferred_def tx_open_def exec_write_def
      stmt_fails_def Let_def split: if_splits)

lemma discard_row_state: "snd (discard_row x) = snd x"
  by (simp add: discard_row_def split: prod.splits sum.splits)

lemma publishDelayDetected_deferred:
  "tx_open d \<Longrightarrow> publishDelayDetected f x Client d = (r, d') \<Longrightarrow> deferred d d'"
proof -
  assume o: "tx_open d" and p: "publishDelayDetected f x Client d = (r, d')"
  from p obtain e where "d' = snd (OutboxRepository_create e Client d)"
    by (metis publishDelayDetected_def discard_row_state snd_conv)
  with o show ?thesis
    by (metis outbox_create_deferred prod.collapse)
qed

lemma publishClaimTriggered_deferred:
  "tx_open d \<Longrightarrow> publishClaimTriggered f x Client d = (r, d') \<Longrightarrow> deferred d d'"
proof -
  assume o: "tx_open d" and p: "publishClaimTriggered f x Client d = (r, d')"
  from p obtain e where "d' = snd (OutboxRepository_create e Client d)"
    by (metis publishClaimTriggered_def discard_row_state snd_conv)
  with o show ?thesis
    by (metis outbox_create_deferred prod.collapse)
qed

lemma markClaimTriggered_deferred:
  "tx_open d \<Longrightarrow> DelayAlertRepository_markClaimTriggered now i ref Client d = (r, d') \<Longrightarrow>
   deferred d d'"
  by (auto simp: DelayAlertRepository_markClaimTriggered_def deferred_def tx_open_def
      exec_write_def Let_def split: if_splits)

lemma update_deferred:
  "tx_open d \<Longrightarrow> DelayAlertRepository_update i u Client d = (r, d') \<Longrightarrow> deferred d d'"
  by (auto simp: DelayAlertRepository_update_def deferred_def tx_open_def exec_write_def
      stmt_fails_def Let_def split: if_splits sum.splits)

lemma claimCatch_deferred:
  "tx_open d \<Longrightarrow> claimCatch a e n d = (r, m, d') \<Longrightarrow> deferred d d'"
proof -
  assume o: "tx_open d" and c: "claimCatch a e n d = (r, m, d')"
  let ?U = "DelayAlertRepository_update (a_id a)
             (no_alert_updates\<lparr>au_claim_triggered := Some False,
                                au_claim_trigger_response := Some (Some (JStr (message e)))\<rparr>) Client d"
  from c have "?U = (fst ?U, d')"
    by (auto simp: claimCatch_def split: prod.splits sum.splits)
  from update_deferred [OF o this] show ?thesis .
qed

lemma claimStep_deferred:
  assumes o: "tx_open d" and c: "claimStep svc now j res a d = (r, m, d')"
  shows "deferred d d'"
proof -
  let ?cr = "fst (triggerClaim (claimTrigger svc) now
                   \<lparr>dai_id = a_id a, dai_monitored_journey_id = journeyId res,
                    dai_delay_minutes = delayMinutes res, dai_user_id = user_id j,
                    dai_claim_triggered = None, dai_claim_reference_id = None\<rparr>)"
  show ?thesis
  proof (cases "success ?cr \<and> truthy_opt (claimReferenceId ?cr)")
    case True
    obtain r1 d1 where m1: "DelayAlertRepository_markClaimTriggered now (a_id a)
        (or_empty (claimReferenceId ?cr)) Client d = (r1, d1)" by fastforce
    have dd1: "deferred d d1" using markClaimTriggered_deferred [OF o m1] .
    show ?thesis
    proof (cases r1)
      case (Inl e)
      with c True m1 have "claimCatch a e 1 d1 = (r, m, d')"
        by (simp add: claimStep_def Let_def)
      from claimCatch_deferred [OF deferred_open [OF dd1] this] dd1 show ?thesis
        by (rule deferred_trans [rotated])
    next
      case (Inr row)
      obtain r2 d2 where p2: "publishClaimTriggered (randomUUID svc)
          \<lparr>cd_alertId = a_id a, cd_journeyId = journeyId res, cd_userId = user_id j,
           cd_claimReferenceId = or_empty (claimReferenceId ?cr),
           cd_delayMinutes = delayMinutes res,
           cd_correlationId = Some (randomUUID svc)\<rparr> Client d1 = (r2, d2)" by fastforce
      have dd2: "deferred d d2"
        using deferred_trans [OF dd1 publishClaimTriggered_deferred [OF deferred_open [OF dd1] p2]] .
      show ?thesis
      proof (cases r2)
        case (Inl e)
        with c True m1 Inr p2 have "claimCatch a e 1 d2 = (r, m, d')"
          by (simp add: claimStep_def Let_def)
        from deferred_trans [OF dd2 claimCatch_deferred [OF deferred_open [OF dd2] this]]
        show ?thesis .
      next
        case (Inr u)
        with c True m1 \<open>r1 = Inr row\<close> p2 have "d' = d2"
          by (simp add: claimStep_def Let_def)
        with dd2 show ?thesis by simp
      qed
    qed
  next
    case False
    obtain r1 d1 where u1: "DelayAlertRepository_update (a_id a)
        (no_alert_updates\<lparr>au_claim_triggered := Some False,
           au_claim_trigger_response := Some (Some (JStr (claim_failure_text ?cr)))\<rparr>) Client d = (r1, d1)"
      by fastforce
    have dd1: "deferred d d1" using update_deferred [OF o u1] .
    show ?thesis
    proof (cases r1)
      case (Inl e)
      with c False u1 have "claimCatch a e 0 d1 = (r, m, d')"
        by (simp add: claimStep_def Let_def)
      from deferred_trans [OF dd1 claimCatch_deferred [OF deferred_open [OF dd1] this]]
      show ?thesis .
    next
      case (Inr row)
      with c False u1 have "d' = d1"
        by (simp add: claimStep_def Let_def)
      with dd1 show ?thesis by simp
    qed
  qed
qed

lemma commitBody_deferred:
  assumes o: "tx_open d" and c: "commitBody svc now j res d = (r, n, d')"
  shows "deferred d d'"
proof -
  let ?alert = "\<lparr>a_id = [], monitored_journey_id = journeyId res,
                 delay_minutes = (if isCancelled res \<and> delayMinutes res = 0 then 1 else delayMinutes res),
                 delay_detected_at = Some (detectedAt res),
                 alert_delay_reasons = delayReasons res,
                 is_cancellation = isCancelled res,
                 threshold_exceeded = exceedsThreshold res,
                 claim_triggered = False, claim_triggered_at = None, claim_reference_id = None,
                 claim_trigger_response = None, notification_sent = False,
                 notification_sent_at = None\<rparr>"
  obtain r1 d1 where s1: "DelayAlertRepository_create now ?alert Client d = (r1, d1)" by fastforce
  have dd1: "deferred d d1" using create_deferred [OF o s1] .
  show ?thesis
  proof (cases r1)
    case (Inl e)
    with c s1 have "d' = d1" by (simp add: commitBody_def Let_def)
    with dd1 show ?thesis by simp
  next
    case a: (Inr alert)
    obtain r2 d2 where s2: "JourneyMonitor_updateStatus (journeyId res)
        (if isCancelled res then Cancelled else Delayed) None d1 = (r2, d2)" by fastforce
    have dd2: "deferred d d2"
      using deferred_trans [OF dd1 updateStatus_deferred [OF deferred_open [OF dd1] s2]] .
    show ?thesis
    proof (cases r2)
      case (Inl e)
      with c s1 a s2 have "d' = d2" by (simp add: commitBody_def Let_def)
      with dd2 show ?thesis by simp
    next
      case u: (Inr u)
      obtain r3 d3 where s3: "publishDelayDetected (randomUUID svc)
          \<lparr>dd_journeyId = journeyId res, dd_alertId = a_id alert,
           dd_userId = user_id j, dd_delayMinutes = delayMinutes res,
           dd_delayReasons = delayReasons res,
           dd_correlationId = Some (randomUUID svc)\<rparr> Client d2 = (r3, d3)" by fastforce
      have dd3: "deferred d d3"
        using deferred_trans [OF dd2 publishDelayDetected_deferred [OF deferred_open [OF dd2] s3]] .
      show ?thesis
      proof (cases r3)
        case (Inl e)
        with c s1 a s2 u s3 have "d' = d3" by (simp add: commitBody_def Let_def)
        with dd3 show ?thesis by simp
      next
        case p: (Inr u2)
        show ?thesis
        proof (cases "claimEligible res \<and> \<not> isCancelled res")
          case True
          with c s1 a s2 u s3 p have "claimStep svc now j res alert d3 = (r, n, d')"
            by (simp add: commitBody_def Let_def)
          from deferred_trans [OF dd3 claimStep_deferred [OF deferred_open [OF dd3] this]]
          show ?thesis .
        next
          case False
          with c s1 a s2 u s3 p have "d' = d3" by (auto simp: commitBody_def Let_def)
          with dd3 show ?thesis by simp
        qed
      qed
    qed
  qed
qed

lemma rollback_discards_alert_and_events:
  assumes "pending d = None" and "commitBody svc now j res (sql_BEGIN d) = (Inl e, n, d1)"
  shows "alerts (sql_ROLLBACK d1) = alerts d \<and> outbox (sql_ROLLBACK d1) = outbox d \<and>
         pending (sql_ROLLBACK d1) = None"
proof -
  have "tx_open (sql_BEGIN d)"
    using assms(1) by (simp add: tx_open_def sql_BEGIN_def)
  from commitBody_deferred [OF this assms(2)] assms(1) show ?thesis
    by (simp add: deferred_def sql_ROLLBACK_def sql_BEGIN_def)
qed

subsection \<open>Status updates and pacing\<close>

text \<open>\<open>updateStatus\<close> never changes \<open>next_check_at\<close>, and the pacing update sets it for every
  listed journey, whatever the journey's status.\<close>

lemma updateStatus_keeps_next_check_at:
  "map next_check_at (journeys (snd (JourneyMonitor_updateStatus i new add d))) =
   map next_check_at (journeys d)"
  by (simp add: JourneyMonitor_updateStatus_def JourneyRepository_updateStatus_def comp_def
      split: option.splits)

lemma updateLastChecked_sets_next_check_at:
  "ids \<noteq> [] \<Longrightarrow> j \<in> set (journeys (JourneyMonitor_updateLastChecked now ids d)) \<Longrightarrow>
   j_id j \<in> set ids \<Longrightarrow> next_check_at j = Some (now + 300000)"
  by (auto simp: JourneyMonitor_updateLastChecked_def JourneyRepository_updateLastChecked_def
      checkIntervalMinutes_def Let_def split: if_splits)

subsection \<open>The claims about the cycle\<close>

text \<open>
  The inputs below hold one journey \<open>M1\<close>, active, with RID \<open>R1\<close>, due at \<open>now = 1000000\<close> and
  arriving later.
\<close>

text \<open>
  Claim C1 at an input where it fails: the upstream reports 25 minutes for \<open>R1\<close> and the
  insert into \<open>outbox\<close> raises.  The cycle itself returns normally and the transaction is
  rolled back, so no alert and no event remain; but the status update went to the pool,
  outside the transaction, and the journey stays \<open>delayed\<close>.  With a second journey \<open>M2\<close>
  whose events the outbox accepts, the cycle goes on after the rollback for \<open>M1\<close>: the alert
  and the two events of \<open>M2\<close> are committed.
\<close>

theorem status_change_survives_rollback:
  "fst (runDetectionCycle (svc_of [raw_delay ''R1'' 25 False] (Returns resp_success)) 1000000 db_outbox_down) =
     Inr \<lparr>journeysChecked = 1, delaysDetected = 1, claimsTriggered = 0, durationMs = 0\<rparr> \<and>
   alerts (snd (runDetectionCycle (svc_of [raw_delay ''R1'' 25 False] (Returns resp_success)) 1000000 db_outbox_down)) = [] \<and>
   outbox (snd (runDetectionCycle (svc_of [raw_delay ''R1'' 25 False] (Returns resp_success)) 1000000 db_outbox_down)) = [] \<and>
   pending (snd (runDetectionCycle (svc_of [raw_delay ''R1'' 25 False] (Returns resp_success)) 1000000 db_outbox_down)) = None \<and>
   map monitoring_status (journeys db_outbox_down) = [Active] \<and>
   map monitoring_status
     (journeys (snd (runDetectionCycle (svc_of [raw_delay ''R1'' 25 False] (Returns resp_success)) 1000000 db_outbox_down)))
     = [Delayed] \<and>
   fst (runDetectionCycle (svc_of [raw_delay ''R1'' 25 False, raw_delay ''R2'' 30 False] (Returns resp_success))
          1000000 db_two_active) =
     Inr \<lparr>journeysChecked = 2, delaysDetected = 2, claimsTriggered = 1, durationMs = 0\<rparr> \<and>
   map monitored_journey_id
     (alerts (snd (runDetectionCycle (svc_of [raw_delay ''R1'' 25 False, raw_delay ''R2'' 30 False] (Returns resp_success))
                     1000000 db_two_active)))
     = [''M2''] \<and>
   map event_type
     (outbox (snd (runDetectionCycle (svc_of [raw_delay ''R1'' 25 False, raw_delay ''R2'' 30 False] (Returns resp_success))
                     1000000 db_two_active)))
     = [''delay.detected'', ''claim.triggered''] \<and>
   map j_id
     (journeys (snd (runDetectionCycle (svc_of [raw_delay ''R1'' 25 False, raw_delay ''R2'' 30 False] (Returns resp_success))
                     1000000 db_two_active)))
     = [''M1'', ''M2''] \<and>
   map monitoring_status
     (journeys (snd (runDetectionCycle (svc_of [raw_delay ''R1'' 25 False, raw_delay ''R2'' 30 False] (Returns resp_success))
                     1000000 db_two_active)))
     = [Delayed, Delayed]"
  by code_simp

text \<open>
  Claim C2 at an input where it fails: the upstream reports \<open>R1\<close> cancelled.  The cycle sets
  the status to \<open>cancelled\<close> through \<open>updateStatus\<close>, which leaves \<open>next_check_at\<close> as it was, and
  the final pacing update then sets it to \<open>now + 5 min\<close>.  \<open>cancelMonitoring\<close>, by contrast,
  clears it.
\<close>

theorem cancelled_journey_is_rescheduled:
  "map monitoring_status
     (journeys (snd (runDetectionCycle (svc_of [raw_delay ''R1'' 0 True] (Returns resp_success)) 1000000 db_one_active)))
     = [Cancelled] \<and>
   map next_check_at
     (journeys (snd (runDetectionCycle (svc_of [raw_delay ''R1'' 0 True] (Returns resp_success)) 1000000 db_one_active)))
     = [Some 1300000] \<and>
   map monitoring_status (journeys (snd (JourneyMonitor_updateStatus ''M1'' Cancelled None db_one_active)))
     = [Cancelled] \<and>
   map next_check_at (journeys (snd (JourneyMonitor_updateStatus ''M1'' Cancelled None db_one_active)))
     = [Some 900000] \<and>
   map monitoring_status (journeys (snd (JourneyMonitor_cancelMonitoring ''M1'' db_one_active)))
     = [Cancelled] \<and>
   map next_check_at (journeys (snd (JourneyMonitor_cancelMonitoring ''M1'' db_one_active)))
     = [None]"
  by code_simp

text \<open>
  Claim C5 at an input where it fails: the upstream reports \<open>R1\<close> cancelled with \<open>-3\<close> minutes.
  The alert is built with \<open>-3\<close> minutes (only exactly 0 is replaced by 1), the table
  rejects it, and the transaction is rolled back: no alert, no event, and the journey stays
  \<open>active\<close>.  With 0 minutes the alert records 1 minute and \<open>is_cancellation\<close>.
\<close>

theorem negative_minutes_cancellation_rejected:
  "total_delay_minutes (toDelayData (raw_delay ''R1'' (-3) True)) = -3 \<and>
   cancelled (toDelayData (raw_delay ''R1'' (-3) True)) \<and>
   alerts (snd (runDetectionCycle (svc_of [raw_delay ''R1'' (-3) True] (Returns resp_success)) 1000000 db_one_active)) = [] \<and>
   outbox (snd (runDetectionCycle (svc_of [raw_delay ''R1'' (-3) True] (Returns resp_success)) 1000000 db_one_active)) = [] \<and>
   map monitoring_status
     (journeys (snd (runDetectionCycle (svc_of [raw_delay ''R1'' (-3) True] (Returns resp_success)) 1000000 db_one_active)))
     = [Active] \<and>
   map delay_minutes
     (alerts (snd (runDetectionCycle (svc_of [raw_delay ''R1'' 0 True] (Returns resp_success)) 1000000 db_one_active)))
     = [1] \<and>
   map is_cancellation
     (alerts (snd (runDetectionCycle (svc_of [raw_delay ''R1'' 0 True] (Returns resp_success)) 1000000 db_one_active)))
     = [True]"
  by code_simp

lemma classifyActive_nth:
  "i < length js \<Longrightarrow>
   classifyActive det now js ds ! i =
     (case findDelayByRid (or_empty (rid (js ! i))) (mapDelayData js ds) of
        Some d \<Rightarrow> detectDelay det now \<lparr>jd_id = Some (j_id (js ! i)), jd_rid = rid (js ! i)\<rparr> d
      | None \<Rightarrow> notFoundResult now \<lparr>jd_id = Some (j_id (js ! i)), jd_rid = rid (js ! i)\<rparr>)"
  by (simp add: classifyActive_def detectDelaysBatch_map)

text \<open>
  Claim C6 as stated fails when the tick has exactly one active journey with a RID and the
  upstream returns exactly one record: the record is applied to the journey whatever its
  RID.  Here the journey has RID \<open>R1\<close>, the only record has RID \<open>OTHER\<close> and 25 minutes, and
  the journey is classified (and alerted) with 25 minutes.
\<close>

theorem single_record_counterexample:
  "rid journey_active = Some ''R1'' \<and>
   d_rid (toDelayData (raw_delay ''OTHER'' 25 False)) = ''OTHER'' \<and>
   ''OTHER'' \<noteq> ''R1'' \<and>
   map dataNotFound
     (classifyActive \<lparr>thresholdMinutes = 15\<rparr> 1000000 [journey_active]
        [toDelayData (raw_delay ''OTHER'' 25 False)]) = [None] \<and>
   map delayMinutes
     (classifyActive \<lparr>thresholdMinutes = 15\<rparr> 1000000 [journey_active]
        [toDelayData (raw_delay ''OTHER'' 25 False)]) = [25] \<and>
   map delay_minutes
     (alerts (snd (runDetectionCycle (svc_of [raw_delay ''OTHER'' 25 False] (Returns resp_success))
                     1000000 db_one_active))) = [25]"
  by code_simp

text \<open>
  Claim C6, amended: the classification of a tick returns one result per journey.  Unless
  there is exactly one journey and exactly one record, a journey for which no record has
  exactly its RID gets the \<open>dataNotFound\<close> result, and a result that is not \<open>dataNotFound\<close> is
  the classification of a record whose RID equals the journey's.  With exactly one journey
  (that has a RID) and exactly one record, the journey is classified from that record.
\<close>

theorem classifyActive_matches_by_rid:
  "i < length js \<Longrightarrow>
   length (classifyActive det now js ds) = length js \<and>
   (\<not> (length js = 1 \<and> length ds = 1) \<longrightarrow>
      ((\<forall>d \<in> set ds. d_rid d \<noteq> or_empty (rid (js ! i))) \<longrightarrow>
         classifyActive det now js ds ! i =
           notFoundResult now \<lparr>jd_id = Some (j_id (js ! i)), jd_rid = rid (js ! i)\<rparr>) \<and>
      (dataNotFound (classifyActive det now js ds ! i) \<noteq> Some True \<longrightarrow>
         (\<exists>d \<in> set ds. d_rid d = or_empty (rid (js ! i)) \<and>
            classifyActive det now js ds ! i =
              detectDelay det now \<lparr>jd_id = Some (j_id (js ! i)), jd_rid = rid (js ! i)\<rparr> d))) \<and>
   (length js = 1 \<and> length ds = 1 \<and> truthy_opt (rid (js ! i)) \<longrightarrow>
      classifyActive det now js ds ! i =
        detectDelay det now \<lparr>jd_id = Some (j_id (js ! i)), jd_rid = rid (js ! i)\<rparr>
          ((hd ds)\<lparr>d_rid := or_empty (rid (js ! i))\<rparr>))"
proof (intro conjI impI)
  assume i: "i < length js"
  show "length (classifyActive det now js ds) = length js"
    by (simp add: classifyActive_def detectDelaysBatch_map)
  {
    assume n: "\<not> (length js = 1 \<and> length ds = 1)"
    then have m: "mapDelayData js ds = ds"
      by (auto simp: mapDelayData_def)
    {
      assume "\<forall>d \<in> set ds. d_rid d \<noteq> or_empty (rid (js ! i))"
      then have "findDelayByRid (or_empty (rid (js ! i))) ds = None"
        by (auto simp: findDelayByRid_def find_None_iff)
      then show "classifyActive det now js ds ! i =
           notFoundResult now \<lparr>jd_id = Some (j_id (js ! i)), jd_rid = rid (js ! i)\<rparr>"
        using i by (simp add: classifyActive_nth m)
    }
    {
      assume nf: "dataNotFound (classifyActive det now js ds ! i) \<noteq> Some True"
      then obtain d where d: "findDelayByRid (or_empty (rid (js ! i))) ds = Some d"
        using i by (cases "findDelayByRid (or_empty (rid (js ! i))) ds")
                   (auto simp: classifyActive_nth m notFoundResult_def)
      then have "d \<in> set ds \<and> d_rid d = or_empty (rid (js ! i))"
        by (auto simp: findDelayByRid_def find_Some_iff split: if_splits)
      then show "\<exists>d \<in> set ds. d_rid d = or_empty (rid (js ! i)) \<and>
            classifyActive det now js ds ! i =
              detectDelay det now \<lparr>jd_id = Some (j_id (js ! i)), jd_rid = rid (js ! i)\<rparr> d"
        using i d by (auto simp: classifyActive_nth m)
    }
  }
  {
    assume s: "length js = 1 \<and> length ds = 1 \<and> truthy_opt (rid (js ! i))"
    with i have i0: "i = 0" by simp
    from s obtain j where js: "js = [j]" by (cases js) auto
    from s js i0 obtain r where r: "rid j = Some r" "r \<noteq> []"
      by (cases "rid j") (auto simp: truthy_str_def)
    show "classifyActive det now js ds ! i =
        detectDelay det now \<lparr>jd_id = Some (j_id (js ! i)), jd_rid = rid (js ! i)\<rparr>
          ((hd ds)\<lparr>d_rid := or_empty (rid (js ! i))\<rparr>)"
      using s r by (simp add: classifyActive_nth i0 js mapDelayData_def findDelayByRid_def truthy_str_def)
  }
qed

theorem classifyActive_matches_by_rid_witness:
  "dataNotFound (classifyActive \<lparr>thresholdMinutes = 15\<rparr> 0 [journey_active, journey_b]
      [toDelayData (raw_delay ''R1'' 20 False), toDelayData (raw_delay ''OTHER'' 30 False)] ! 1) = Some True \<and>
   delayMinutes (classifyActive \<lparr>thresholdMinutes = 15\<rparr> 0 [journey_active, journey_b]
      [toDelayData (raw_delay ''R1'' 20 False), toDelayData (raw_delay ''OTHER'' 30 False)] ! 0) = 20 \<and>
   delayMinutes (classifyActive \<lparr>thresholdMinutes = 15\<rparr> 0 [journey_active]
      [toDelayData (raw_delay ''OTHER'' 30 False)] ! 0) = 30"
proof -
  have r: "rid journey_active = Some ''R1''" "rid journey_b = Some ''R2''"
    by (simp_all add: journey_active_def journey_b_def)
  have d: "d_rid (toDelayData (raw_delay ''R1'' 20 False)) = ''R1''"
          "d_rid (toDelayData (raw_delay ''OTHER'' 30 False)) = ''OTHER''"
          "total_delay_minutes (toDelayData (raw_delay ''R1'' 20 False)) = 20"
          "total_delay_minutes (toDelayData (raw_delay ''OTHER'' 30 False)) = 30"
    by (simp_all add: toDelayData_def raw_delay_def)
  have e: "delayMinutes (classifyActive \<lparr>thresholdMinutes = 15\<rparr> 0 [journey_active, journey_b]
      [toDelayData (raw_delay ''R1'' 20 False), toDelayData (raw_delay ''OTHER'' 30 False)] ! 0) = 20"
    by code_simp
  show ?thesis
    using classifyActive_matches_by_rid [of 1 "[journey_active, journey_b]" "\<lparr>thresholdMinutes = 15\<rparr>" 0
            "[toDelayData (raw_delay ''R1'' 20 False), toDelayData (raw_delay ''OTHER'' 30 False)]"]
          classifyActive_matches_by_rid [of 0 "[journey_active, journey_b]" "\<lparr>thresholdMinutes = 15\<rparr>" 0
            "[toDelayData (raw_delay ''R1'' 20 False), toDelayData (raw_delay ''OTHER'' 30 False)]"]
          classifyActive_matches_by_rid [of 0 "[journey_active]" "\<lparr>thresholdMinutes = 15\<rparr>" 0
            "[toDelayData (raw_delay ''OTHER'' 30 False)]"]
    by (auto simp: r d e notFoundResult_def detectDelay_def truthy_str_def Let_def)
qed

end
